theory Spec2Isabelle
  imports Complex_Main "HOL-Library.Sublist" "HOL-Library.Word"
begin

section \<open>Anatomical preprocessing notebook (01\_preproc\_anat)\<close>

text \<open>
  The notebook wires third-party neuroimaging tools into a nipype workflow and adds three
  Python functions of its own: \<open>create_file_path\<close>, \<open>get_brain_and_mask\<close> and
  \<open>write_report\<close>. The notebook's own code is embedded below function by function.
  Calls into libraries (nibabel, nilearn, scipy, pybids, matplotlib, nipype) are either
  parameters of the model or small definitions that follow the library; each such
  definition says so.
\<close>

subsection \<open>Python exceptions\<close>

datatype error =
    TypeError
  | ValueError
  | IndexError
  | UnboundLocalError
  | ReError
  | FileNotFoundError string
  | ImageFileError string

definition bindE :: "error + 'a \<Rightarrow> ('a \<Rightarrow> error + 'b) \<Rightarrow> error + 'b" where
  "bindE m f = (case m of Inl e \<Rightarrow> Inl e | Inr x \<Rightarrow> f x)"

fun mapE :: "('a \<Rightarrow> error + 'b) \<Rightarrow> 'a list \<Rightarrow> error + 'b list" where
  "mapE f [] = Inr []"
| "mapE f (x # xs) = bindE (f x) (\<lambda>y. bindE (mapE f xs) (\<lambda>ys. Inr (y # ys)))"

subsection \<open>Strings and paths\<close>

text \<open>
  Python's \<open>s.replace(old, new)\<close>: every non-overlapping occurrence of \<open>old\<close>, found
  from the left, is replaced. With an empty \<open>old\<close>, \<open>new\<close> is inserted before every
  character and at the end.
\<close>

fun str_replace :: "string \<Rightarrow> string \<Rightarrow> string \<Rightarrow> string" where
  "str_replace [] old new = (if old = [] then new else [])"
| "str_replace (c # s) old new =
     (if old = [] then new @ c # str_replace s old new
      else if prefix old (c # s) then new @ str_replace (drop (length old) (c # s)) old new
      else c # str_replace s old new)"

text \<open>
  \<open>os.path.join(a, *p)\<close> on POSIX: a component that starts with \<open>/\<close> discards what came
  before it; otherwise it is appended, after a \<open>/\<close> unless the path so far is empty or
  already ends with one.
\<close>

fun os_path_join :: "string \<Rightarrow> string list \<Rightarrow> string" where
  "os_path_join path [] = path"
| "os_path_join path (b # p) =
     os_path_join
       (if prefix ''/'' b then b
        else if path = [] \<or> suffix ''/'' path then path @ b
        else path @ ''/'' @ b) p"

text \<open>\<open>sep.join(parts)\<close>.\<close>

fun str_join :: "string \<Rightarrow> string list \<Rightarrow> string" where
  "str_join sep [] = []"
| "str_join sep [x] = x"
| "str_join sep (x # y # ys) = x @ sep @ str_join sep (y # ys)"

subsection \<open>Path patterns of the BIDS layout\<close>

text \<open>
  \<open>layout.build_path(entities, path_patterns)\<close> belongs to the BIDS layout library, not to
  the notebook. The definitions below follow the library's \<open>build_path\<close> and
  \<open>replace_entities\<close> statement by statement. Both work on the text of the pattern:
  placeholders are found with the regular expression \<open>\{(.*?)\}\<close>, optional portions with
  \<open>\[(.*?)\]\<close>, and values are put in with \<open>str.replace\<close>, so a value that was put
  in is scanned again by the replacements that follow.

  \<open>re.findall\<close> for the two expressions: from a left delimiter the match runs to the
  next right delimiter on the same line; the search goes on behind a match, and at the
  next character where there is none.
\<close>

function findall :: "char \<Rightarrow> char \<Rightarrow> string \<Rightarrow> string list" where
  "findall l r [] = []"
| "findall l r (c # s) =
     (if c = l \<and> r \<in> set s \<and> CHR 0x0A \<notin> set (takeWhile (\<lambda>x. x \<noteq> r) s)
      then takeWhile (\<lambda>x. x \<noteq> r) s # findall l r (tl (dropWhile (\<lambda>x. x \<noteq> r) s))
      else findall l r s)"
  by pat_completeness auto
termination
proof (relation "measure (\<lambda>(l, r, s). length s)")
  fix l r c :: char and s :: string
  show "((l, r, tl (dropWhile (\<lambda>x. x \<noteq> r) s)), (l, r, c # s)) \<in> measure (\<lambda>(l, r, s). length s)"
    using length_dropWhile_le [of "\<lambda>x. x \<noteq> r" s] by simp
qed simp_all

text \<open>
  The text between the braces is read with
  \<open>re.search('([^|<]+)(<.*?>)?(\|.*)?', ent)\<close>: the name of the entity, an optional
  pattern for its value in angle brackets, and an optional default after a bar. The
  result is the name, the pattern without its brackets and the default without its bar;
  there is none when no character of the text can start a name.
\<close>

definition entity_spec :: "string \<Rightarrow> (string \<times> string option \<times> string option) option" where
  "entity_spec ent =
     (let special = (\<lambda>c. c = CHR ''|'' \<or> c = CHR ''<'');
          from_name = dropWhile special ent;
          name = takeWhile (\<lambda>c. \<not> special c) from_name;
          after_name = dropWhile (\<lambda>c. \<not> special c) from_name;
          has_valid = (prefix ''<'' after_name \<and> CHR ''>'' \<in> set (tl after_name)
                       \<and> CHR 0x0A \<notin> set (takeWhile (\<lambda>c. c \<noteq> CHR ''>'') (tl after_name)));
          valid = (if has_valid then Some (takeWhile (\<lambda>c. c \<noteq> CHR ''>'') (tl after_name))
                   else None);
          after_valid = (if has_valid then tl (dropWhile (\<lambda>c. c \<noteq> CHR ''>'') (tl after_name))
                         else after_name);
          default' = (if prefix ''|'' after_valid
                     then Some (takeWhile (\<lambda>c. c \<noteq> CHR 0x0A) (tl after_valid)) else None)
      in if from_name = [] then None else Some (name, valid, default'))"

text \<open>
  The loop of \<open>replace_entities\<close> over the placeholders found in the pattern it was given.
  \<open>re.match(valid[1:-1], ent_val)\<close> is a parameter: it tells whether the value matches
  the pattern, and has no answer where \<open>re\<close> raises an error. A value that does not match
  is overwritten by the default in the dictionary of the caller, so the dictionary is
  passed on. The result \<open>None\<close> is Python's.
\<close>

fun replace_each ::
  "(string \<Rightarrow> string \<Rightarrow> bool option) \<Rightarrow> string list \<Rightarrow> (string \<rightharpoonup> string) \<Rightarrow> string
     \<Rightarrow> error + (string option \<times> (string \<rightharpoonup> string))" where
  "replace_each re_match [] entities new_path = Inr (Some new_path, entities)"
| "replace_each re_match (ent # ents) entities new_path =
     (case entity_spec ent of
        None \<Rightarrow> Inr (None, entities)
      | Some (name, valid, default') \<Rightarrow>
          bindE
            (case (entities name, valid) of
               (Some ent_val, Some pattern) \<Rightarrow>
                 (case re_match pattern ent_val of
                    None \<Rightarrow> Inl ReError
                  | Some True \<Rightarrow> Inr (Some entities)
                  | Some False \<Rightarrow>
                      (case default' of
                         None \<Rightarrow> Inr None
                       | Some d \<Rightarrow> Inr (Some (entities(name \<mapsto> d)))))
             | _ \<Rightarrow> Inr (Some entities))
            (\<lambda>checked.
               case checked of
                 None \<Rightarrow> Inr (None, entities)
               | Some entities \<Rightarrow>
                   (case (case entities name of Some v \<Rightarrow> Some v | None \<Rightarrow> default') of
                      None \<Rightarrow> Inr (None, entities)
                    | Some ent_val \<Rightarrow>
                        replace_each re_match ents entities
                          (str_replace new_path (''{'' @ ent @ ''}'') ent_val))))"

definition replace_entities ::
  "(string \<Rightarrow> string \<Rightarrow> bool option) \<Rightarrow> (string \<rightharpoonup> string) \<Rightarrow> string
     \<Rightarrow> error + (string option \<times> (string \<rightharpoonup> string))" where
  "replace_entities re_match entities pattern =
     replace_each re_match (findall CHR ''{'' CHR ''}'' pattern) entities pattern"

text \<open>
  The first loop of \<open>build_path\<close>: every optional portion of the pattern is replaced in
  the path by its text with the entities filled in, or by the empty string when that is
  \<open>None\<close> or empty (\<open>replace_entities(entities, optional_pattern) or ''\<close>).
\<close>

fun optional_chunks ::
  "(string \<Rightarrow> string \<Rightarrow> bool option) \<Rightarrow> string list \<Rightarrow> (string \<rightharpoonup> string) \<Rightarrow> string
     \<Rightarrow> error + (string \<times> (string \<rightharpoonup> string))" where
  "optional_chunks re_match [] entities new_path = Inr (new_path, entities)"
| "optional_chunks re_match (optional_pattern # rest) entities new_path =
     bindE (replace_entities re_match entities optional_pattern) (\<lambda>(chunk, entities).
       optional_chunks re_match rest entities
         (str_replace new_path (''['' @ optional_pattern @ '']'')
            (case chunk of None \<Rightarrow> '''' | Some optional_chunk \<Rightarrow> optional_chunk)))"

text \<open>
  \<open>build_path(entities, path_patterns, strict=False)\<close>: the first pattern that gives a
  non-empty path, or \<open>None\<close>.
\<close>

fun build_path ::
  "(string \<Rightarrow> string \<Rightarrow> bool option) \<Rightarrow> (string \<rightharpoonup> string) \<Rightarrow> string list
     \<Rightarrow> error + string option" where
  "build_path re_match entities [] = Inr None"
| "build_path re_match entities (pattern # path_patterns) =
     bindE (optional_chunks re_match (findall CHR ''['' CHR '']'' pattern) entities pattern)
       (\<lambda>(new_path, entities).
     bindE (replace_entities re_match entities new_path) (\<lambda>(new_path, entities).
       case new_path of
         None \<Rightarrow> build_path re_match entities path_patterns
       | Some new_path \<Rightarrow>
           if new_path \<noteq> [] then Inr (Some new_path)
           else build_path re_match entities path_patterns))"

subsection \<open>Input stream: sessions, iterables and \<open>create_file_path\<close>\<close>

text \<open>
  \<open>session_list = session_list if session_list else ['']\<close>, applied to what
  \<open>layout.get_sessions()\<close> returned.
\<close>

definition session_list :: "string list \<Rightarrow> string list" where
  "session_list layout_sessions = (if layout_sessions \<noteq> [] then layout_sessions else [''''])"

text \<open>
  \<open>create_file_path(subject_id, session_id, layout, T1_id)\<close>. The layout object is used
  for its \<open>build_path\<close> only, which does not read the layout when it is given a dictionary
  of entities, so the model has no parameter for it; its first parameter is the
  \<open>re.match\<close> that \<open>build_path\<close> uses. \<open>join('/data', None)\<close> raises \<open>TypeError\<close>.
\<close>

definition create_file_path ::
  "(string \<Rightarrow> string \<Rightarrow> bool option) \<Rightarrow> string \<Rightarrow> string \<Rightarrow> string \<Rightarrow> error + string" where
  "create_file_path re_match subject_id session_id T1_id =
     (let entities = [''subject_id'' \<mapsto> subject_id, ''T1_id'' \<mapsto> T1_id];
          entities = (if session_id \<noteq> '''' then entities(''session_id'' \<mapsto> session_id)
                      else entities);
          pattern = ''sub-{subject_id}[/ses-{session_id}]/anat/'';
          pattern = pattern @ ''sub-{subject_id}[_ses-{session_id}]_{T1_id}.nii.gz''
      in bindE (build_path re_match entities [pattern]) (\<lambda>fpath.
           case fpath of
             None \<Rightarrow> Inl TypeError
           | Some fpath \<Rightarrow> Inr (os_path_join ''/data'' [fpath])))"

subsection \<open>The workflow: nodes and connections\<close>

text \<open>
  The notebook declares eleven nipype nodes and passes a list of connections to
  \<open>preproc_anat.connect\<close>. Both are data here: a node is its name, the interface it wraps,
  the inputs the notebook sets on it and its iterables; a connection is a triple of a
  source node, a destination node and pairs of an output and an input name. The values
  the notebook sets on inputs are Python values.
\<close>

datatype pyval =
    PyStr string
  | PyInt int
  | PyFloat real
  | PyBool bool
  | PyList "pyval list"
  | PyTuple "pyval list"
  | PyObject string

text \<open>
  The interfaces of nipype that the notebook instantiates. \<open>Function\<close> wraps a Python
  function of the notebook, with the names of its inputs and outputs;
  \<open>IdentityInterface\<close> passes its fields through. The others call external tools
  (nibabel's reorientation, FSL, ANTs, SPM) or move files.
\<close>

datatype interface =
    Reorient
  | RobustFOV
  | N4BiasFieldCorrection
  | Gunzip
  | NewSegment
  | Registration
  | DataSink
  | IdentityInterface "string list"
  | Function "string list" "string list" string

record node =
  name :: string
  interface :: interface
  inputs :: "(string \<times> pyval) list"
  iterables :: "(string \<times> string list) list"

text \<open>
  What the notebook reads before it builds the workflow: the entries of
  \<open>analysis-anat_specs.json\<close> (the voxel resolution as the strings that \<open>str(n)\<close> gives for
  its numbers) and the sessions that the BIDS layout of \<open>/data/\<close> reports.
\<close>

record dataset =
  subject_list :: "string list"
  T1_id :: string
  norm_res :: "string list"
  n_proc :: int
  get_sessions :: "string list"

definition exp_dir :: string where "exp_dir = ''/data/derivatives''"
definition out_dir :: string where "out_dir = ''fmriflows''"
definition work_dir :: string where "work_dir = ''/workingdir''"
definition template_dir :: string where "template_dir = ''/templates/mni_icbm152_nlin_asym_09c/''"
definition brain_template :: string where
  "brain_template = os_path_join template_dir [''1.0mm_brain.nii.gz'']"

definition norm_template :: "dataset \<Rightarrow> string" where
  "norm_template ds =
     os_path_join template_dir [''template_brain_'' @ str_join ''_'' (norm_res ds) @ ''.nii.gz'']"

definition reorient :: node where
  "reorient = \<lparr>name = ''reorient'', interface = Reorient,
     inputs = [(''orientation'', PyStr ''RAS'')], iterables = []\<rparr>"

definition cropFOV :: node where
  "cropFOV = \<lparr>name = ''cropFOV'', interface = RobustFOV,
     inputs = [(''output_type'', PyStr ''NIFTI_GZ'')], iterables = []\<rparr>"

definition n4 :: node where
  "n4 = \<lparr>name = ''n4'', interface = N4BiasFieldCorrection,
     inputs = [(''dimension'', PyInt 3)], iterables = []\<rparr>"

definition gunzip :: node where
  "gunzip = \<lparr>name = ''gunzip'', interface = Gunzip, inputs = [], iterables = []\<rparr>"

definition segment :: node where
  "segment = \<lparr>name = ''segment'', interface = NewSegment, inputs = [], iterables = []\<rparr>"

definition extract_brain :: node where
  "extract_brain = \<lparr>name = ''extract_brain'',
     interface = Function [''in_file'', ''segments''] [''out_file'', ''mask''] ''get_brain_and_mask'',
     inputs = [], iterables = []\<rparr>"

definition antsreg :: "dataset \<Rightarrow> node" where
  "antsreg ds = \<lparr>name = ''antsreg'', interface = Registration,
     inputs =
       [(''fixed_image'', PyStr (norm_template ds)),
        (''num_threads'', PyInt (n_proc ds)),
        (''output_inverse_warped_image'', PyBool True),
        (''output_warped_image'', PyBool True),
        (''collapse_output_transforms'', PyBool True),
        (''dimension'', PyInt 3),
        (''float'', PyBool True),
        (''initial_moving_transform_com'', PyBool True),
        (''interpolation'', PyStr ''Linear''),
        (''transforms'', PyList [PyStr ''Rigid'', PyStr ''Affine'', PyStr ''SyN'']),
        (''transform_parameters'',
           PyList [PyTuple [PyFloat (1/10)], PyTuple [PyFloat (8/100)],
                   PyTuple [PyFloat (1/10), PyFloat 3, PyFloat 0]]),
        (''metric'', PyList [PyStr ''Mattes'', PyStr ''Mattes'', PyStr ''CC'']),
        (''metric_weight'', PyList (replicate 3 (PyFloat 1))),
        (''radius_or_number_of_bins'', PyList [PyInt 64, PyInt 64, PyInt 4]),
        (''sampling_strategy'', PyList [PyStr ''Regular'', PyStr ''Regular'', PyStr ''None'']),
        (''sampling_percentage'', PyList [PyFloat (25/100), PyFloat (25/100), PyInt 1]),
        (''number_of_iterations'',
           PyList [PyList [PyInt 1000, PyInt 500, PyInt 250, PyInt 100],
                   PyList [PyInt 1000, PyInt 500, PyInt 250, PyInt 100],
                   PyList [PyInt 100, PyInt 70, PyInt 50, PyInt 20]]),
        (''convergence_threshold'', PyList (replicate 3 (PyFloat (1/1000000)))),
        (''convergence_window_size'', PyList [PyInt 20, PyInt 20, PyInt 10]),
        (''smoothing_sigmas'', PyList (replicate 3 (PyList [PyInt 3, PyInt 2, PyInt 1, PyInt 0]))),
        (''sigma_units'', PyList (replicate 3 (PyStr ''vox''))),
        (''shrink_factors'', PyList (replicate 3 (PyList [PyInt 8, PyInt 4, PyInt 2, PyInt 1]))),
        (''use_estimate_learning_rate_once'', PyList [PyBool True, PyBool True, PyBool True]),
        (''use_histogram_matching'', PyBool True),
        (''winsorize_lower_quantile'', PyFloat (5/1000)),
        (''winsorize_upper_quantile'', PyFloat (995/1000)),
        (''write_composite_transform'', PyBool True),
        (''terminal_output'', PyStr ''file'')],
     iterables = []\<rparr>"

definition create_report :: node where
  "create_report = \<lparr>name = ''create_report'',
     interface = Function [''sub'', ''sess'', ''n4'', ''segments'', ''brain'', ''T1_template'', ''warped_file'']
                   [''out_segmentation'', ''out_brain'', ''out_warp''] ''write_report'',
     inputs = [(''T1_template'', PyStr (str_replace brain_template ''brain'' ''T1''))],
     iterables = []\<rparr>"

definition infosource :: "dataset \<Rightarrow> node" where
  "infosource ds = \<lparr>name = ''infosource'',
     interface = IdentityInterface [''subject_id'', ''session_id''],
     inputs = [],
     iterables = [(''subject_id'', subject_list ds),
                  (''session_id'', session_list (get_sessions ds))]\<rparr>"

definition selectfiles :: "dataset \<Rightarrow> node" where
  "selectfiles ds = \<lparr>name = ''selectfiles'',
     interface = Function [''subject_id'', ''session_id'', ''layout'', ''T1_id''] [''anat'']
                   ''create_file_path'',
     inputs = [(''layout'', PyObject ''layout''), (''T1_id'', PyStr (T1_id ds))],
     iterables = []\<rparr>"

text \<open>The naming substitutions of the datasink, in the order the notebook appends them.\<close>

definition substitutions :: "dataset \<Rightarrow> (string \<times> string) list" where
  "substitutions ds =
     (let sessions = session_list (get_sessions ds); subjects = subject_list ds in
      concat (map (\<lambda>sess. map (\<lambda>sub.
          (''_session_id_'' @ sess @ ''_subject_id_'' @ sub @ ''/'',
           ''sub-'' @ sub @ ''/sub-'' @ sub @ ''_ses-'' @ sess @ ''_'')) subjects) sessions)
      @ [(''_ras'', ''''),
         (''_ROI'', ''''),
         (''_'' @ T1_id ds @ ''_corrected'', ''''),
         (''c1'', ''seg_gm_''),
         (''c2'', ''seg_wm_''),
         (''c3'', ''seg_csf_''),
         (''c4'', ''seg_skull_''),
         (''c5'', ''seg_head_''),
         (''ses-_'', '''')]
      @ map (\<lambda>sub. (''sub-'' @ sub @ ''_sub-'' @ sub, ''sub-'' @ sub)) subjects
      @ concat (map (\<lambda>sess. map (\<lambda>sub.
          (''_sub-'' @ sub @ ''_ses-'' @ sess, '''')) subjects) sessions)
      @ map (\<lambda>sub. (''_sub-'' @ sub @ ''.nii'', ''.nii'')) subjects
      @ concat (map (\<lambda>sess. map (\<lambda>sub.
          (''/sub-'' @ sub @ ''_ses-'' @ sess @ ''.nii'',
           ''/sub-'' @ sub @ ''_ses-'' @ sess @ ''_T1w_corrected.nii'')) subjects) sessions)
      @ concat (map (\<lambda>sess. map (\<lambda>sub.
          (''/sub-'' @ sub @ ''.nii'', ''/sub-'' @ sub @ ''_T1w_corrected.nii'')) subjects) sessions))"

definition datasink :: "dataset \<Rightarrow> node" where
  "datasink ds = \<lparr>name = ''datasink'', interface = DataSink,
     inputs = [(''base_directory'', PyStr exp_dir),
               (''container'', PyStr out_dir),
               (''substitutions'',
                  PyList (map (\<lambda>(old, new). PyTuple [PyStr old, PyStr new]) (substitutions ds)))],
     iterables = []\<rparr>"

text \<open>The argument of \<open>preproc_anat.connect\<close>: (source node, destination node, [(output, input)]).\<close>

definition connect :: "dataset \<Rightarrow> (node \<times> node \<times> (string \<times> string) list) list" where
  "connect ds =
     [(infosource ds, selectfiles ds, [(''subject_id'', ''subject_id''),
                                       (''session_id'', ''session_id'')]),
      (selectfiles ds, reorient, [(''anat'', ''in_file'')]),
      (reorient, cropFOV, [(''out_file'', ''in_file'')]),
      (cropFOV, n4, [(''out_roi'', ''input_image'')]),
      (n4, gunzip, [(''output_image'', ''in_file'')]),
      (gunzip, segment, [(''out_file'', ''channel_files'')]),
      (segment, extract_brain, [(''native_class_images'', ''segments'')]),
      (n4, extract_brain, [(''output_image'', ''in_file'')]),
      (extract_brain, antsreg ds, [(''out_file'', ''moving_image'')]),
      (n4, datasink ds, [(''output_image'', ''preproc_anat.@n4'')]),
      (segment, datasink ds, [(''native_class_images'', ''preproc_anat.@segment'')]),
      (extract_brain, datasink ds, [(''out_file'', ''preproc_anat.@brain''),
                                    (''mask'', ''preproc_anat.@mask'')]),
      (antsreg ds, datasink ds,
         [(''warped_image'', ''preproc_anat.@warped_image''),
          (''inverse_warped_image'', ''preproc_anat.@inverse_warped_image''),
          (''composite_transform'', ''preproc_anat.@transform''),
          (''inverse_composite_transform'', ''preproc_anat.@inverse_transform'')]),
      (infosource ds, create_report, [(''subject_id'', ''sub''),
                                      (''session_id'', ''sess'')]),
      (n4, create_report, [(''output_image'', ''n4'')]),
      (segment, create_report, [(''native_class_images'', ''segments'')]),
      (extract_brain, create_report, [(''out_file'', ''brain'')]),
      (antsreg ds, create_report, [(''warped_image'', ''warped_file'')]),
      (create_report, datasink ds, [(''out_segmentation'', ''preproc_anat.@vis_segmentation''),
                                    (''out_brain'', ''preproc_anat.@vis_brain''),
                                    (''out_warp'', ''preproc_anat.@vis_warp'')])]"

text \<open>
  \<open>connect\<close> adds the nodes it is given to the workflow graph; a data dependency leads
  from the source of a connection to its destination.
\<close>

definition workflow_nodes :: "dataset \<Rightarrow> node list" where
  "workflow_nodes ds = remdups (concat (map (\<lambda>(u, v, ports). [u, v]) (connect ds)))"

definition dependencies :: "dataset \<Rightarrow> (string \<times> string) list" where
  "dependencies ds = map (\<lambda>(u, v, ports). (name u, name v)) (connect ds)"

text \<open>
  The port names that the notebook itself declares: the input and output names of a
  \<open>Function\<close> and the fields of an \<open>IdentityInterface\<close>. The ports of the other interfaces
  are declared inside nipype, so a connection to them is not compared with a list.
\<close>

fun declared_outputs :: "interface \<Rightarrow> string list option" where
  "declared_outputs (Function input_names output_names f) = Some output_names"
| "declared_outputs (IdentityInterface field_names) = Some field_names"
| "declared_outputs _ = None"

fun declared_inputs :: "interface \<Rightarrow> string list option" where
  "declared_inputs (Function input_names output_names f) = Some input_names"
| "declared_inputs (IdentityInterface field_names) = Some field_names"
| "declared_inputs _ = None"

fun port_ok :: "string list option \<Rightarrow> string \<Rightarrow> bool" where
  "port_ok None p = True"
| "port_ok (Some ps) p = (p \<in> set ps)"

definition connection_ok :: "dataset \<Rightarrow> node \<times> node \<times> (string \<times> string) list \<Rightarrow> bool" where
  "connection_ok ds c =
     (case c of (u, v, ports) \<Rightarrow>
        u \<in> set (workflow_nodes ds) \<and> v \<in> set (workflow_nodes ds) \<and>
        list_all (\<lambda>(out, inp). port_ok (declared_outputs (interface u)) out
                             \<and> port_ok (declared_inputs (interface v)) inp) ports)"

text \<open>A numbering of the nodes along which every connection leads upwards.\<close>

definition topo_rank :: "string \<Rightarrow> nat" where
  "topo_rank n =
     (if n = ''infosource'' then 0 else if n = ''selectfiles'' then 1
      else if n = ''reorient'' then 2 else if n = ''cropFOV'' then 3
      else if n = ''n4'' then 4 else if n = ''gunzip'' then 5
      else if n = ''segment'' then 6 else if n = ''extract_brain'' then 7
      else if n = ''antsreg'' then 8 else if n = ''create_report'' then 9 else 10)"

text \<open>
  An execution order of the named nodes respects the connections when it lists every
  node once and the source of every connection before its destination.
\<close>

definition position :: "'a list \<Rightarrow> 'a \<Rightarrow> nat" where
  "position xs x = length (takeWhile (\<lambda>y. y \<noteq> x) xs)"

definition respects_connections :: "dataset \<Rightarrow> string list \<Rightarrow> bool" where
  "respects_connections ds order =
     (distinct order \<and> set order = set (map name (workflow_nodes ds)) \<and>
      list_all (\<lambda>(a, b). position order a < position order b) (dependencies ds))"

text \<open>
  nipype runs the workflow once for every combination of one value per iterable field:
  \<open>infosource.iterables = [('subject_id', subject_list), ('session_id', session_list)]\<close>
  gives one run per pair of a subject and a session.
\<close>

fun combinations :: "(string \<times> string list) list \<Rightarrow> (string \<times> string) list list" where
  "combinations [] = [[]]"
| "combinations ((field, vals) # rest) =
     concat (map (\<lambda>v. map (\<lambda>c. (field, v) # c) (combinations rest)) vals)"

text \<open>
  The data flow of one run. The tools are black boxes, so the value of an output is the
  symbolic application of its node to the inputs of the node: the inputs set in the
  notebook, the values of its iterables in this run, and the outputs connected to it,
  which are evaluated first. The evaluation is bounded by the length of the longest
  chain of connections it may follow.
\<close>

datatype dval = Const pyval | Out string "(string \<times> dval) list" string

definition configured :: "(string \<times> string) list \<Rightarrow> node \<Rightarrow> (string \<times> dval) list" where
  "configured combo n =
     map (\<lambda>(k, v). (k, Const v)) (inputs n)
     @ map (\<lambda>(k, v). (k, Const (PyStr v))) (filter (\<lambda>(k, v). k \<in> set (map fst (iterables n))) combo)"

definition incoming :: "dataset \<Rightarrow> node \<Rightarrow> (node \<times> string \<times> string) list" where
  "incoming ds n =
     concat (map (\<lambda>(u, v, ports).
       if name v = name n then map (\<lambda>(out, inp). (u, out, inp)) ports else []) (connect ds))"

fun node_out :: "dataset \<Rightarrow> (string \<times> string) list \<Rightarrow> nat \<Rightarrow> node \<Rightarrow> string \<Rightarrow> dval option" where
  "node_out ds combo 0 n p = None"
| "node_out ds combo (Suc k) n p =
     map_option (\<lambda>ins. Out (name n) (configured combo n @ ins) p)
       (those (map (\<lambda>(u, out, inp). map_option (Pair inp) (node_out ds combo k u out))
                   (incoming ds n)))"

text \<open>
  The chain of the six processing steps, written out: what each step consumes, from the
  selected file to the normalised image.
\<close>

definition run_node :: "(string \<times> string) list \<Rightarrow> node \<Rightarrow> (string \<times> dval) list \<Rightarrow> string \<Rightarrow> dval" where
  "run_node combo n ins p = Out (name n) (configured combo n @ ins) p"

definition anat_file :: "dataset \<Rightarrow> (string \<times> string) list \<Rightarrow> dval" where
  "anat_file ds combo =
     run_node combo (selectfiles ds)
       [(''subject_id'', run_node combo (infosource ds) [] ''subject_id''),
        (''session_id'', run_node combo (infosource ds) [] ''session_id'')] ''anat''"

definition reoriented :: "dataset \<Rightarrow> (string \<times> string) list \<Rightarrow> dval" where
  "reoriented ds combo = run_node combo reorient [(''in_file'', anat_file ds combo)] ''out_file''"

definition cropped :: "dataset \<Rightarrow> (string \<times> string) list \<Rightarrow> dval" where
  "cropped ds combo = run_node combo cropFOV [(''in_file'', reoriented ds combo)] ''out_roi''"

definition bias_corrected :: "dataset \<Rightarrow> (string \<times> string) list \<Rightarrow> dval" where
  "bias_corrected ds combo =
     run_node combo n4 [(''input_image'', cropped ds combo)] ''output_image''"

definition tissue_maps :: "dataset \<Rightarrow> (string \<times> string) list \<Rightarrow> dval" where
  "tissue_maps ds combo =
     run_node combo segment
       [(''channel_files'', run_node combo gunzip [(''in_file'', bias_corrected ds combo)] ''out_file'')]
       ''native_class_images''"

definition extracted_brain :: "dataset \<Rightarrow> (string \<times> string) list \<Rightarrow> dval" where
  "extracted_brain ds combo =
     run_node combo extract_brain
       [(''segments'', tissue_maps ds combo), (''in_file'', bias_corrected ds combo)] ''out_file''"

definition normalized :: "dataset \<Rightarrow> (string \<times> string) list \<Rightarrow> dval" where
  "normalized ds combo =
     run_node combo (antsreg ds) [(''moving_image'', extracted_brain ds combo)] ''warped_image''"


subsection \<open>Images, arrays and files\<close>

text \<open>
  A volume is a three-dimensional array stored in C order: voxel \<open>(i, j, k)\<close> of an array
  of shape \<open>(nx, ny, nz)\<close> is element \<open>(i * ny + j) * nz + k\<close> of the flat list. Two
  element types occur: \<open>float64\<close> and \<open>int8\<close>, whose arithmetic wraps around.

  A \<open>float64\<close> value is finite, an infinity or NaN. Arithmetic on finite values is exact
  here (rounding and overflow are left out); the infinities and NaN follow IEEE 754: NaN
  spreads, infinity times zero and the difference of equal infinities are NaN, and every
  comparison with NaN is false, so NaN is different from zero.
\<close>

datatype float64 = Finite real | PosInf | NegInf | NaN

fun f_neg :: "float64 \<Rightarrow> float64" where
  "f_neg (Finite a) = Finite (- a)"
| "f_neg PosInf = NegInf"
| "f_neg NegInf = PosInf"
| "f_neg NaN = NaN"

fun f_add :: "float64 \<Rightarrow> float64 \<Rightarrow> float64" where
  "f_add NaN y = NaN"
| "f_add x NaN = NaN"
| "f_add (Finite a) (Finite b) = Finite (a + b)"
| "f_add (Finite a) y = y"
| "f_add x (Finite b) = x"
| "f_add x y = (if x = y then x else NaN)"

definition f_sub :: "float64 \<Rightarrow> float64 \<Rightarrow> float64" where
  "f_sub x y = f_add x (f_neg y)"

fun f_mul :: "float64 \<Rightarrow> float64 \<Rightarrow> float64" where
  "f_mul NaN y = NaN"
| "f_mul x NaN = NaN"
| "f_mul (Finite a) (Finite b) = Finite (a * b)"
| "f_mul (Finite a) y = (if a = 0 then NaN else if a > 0 then y else f_neg y)"
| "f_mul x (Finite b) = (if b = 0 then NaN else if b > 0 then x else f_neg x)"
| "f_mul x y = (if x = y then PosInf else NegInf)"

fun f_ge :: "float64 \<Rightarrow> real \<Rightarrow> bool" where
  "f_ge (Finite a) c = (a \<ge> c)"
| "f_ge PosInf c = True"
| "f_ge NegInf c = False"
| "f_ge NaN c = False"

fun f_less :: "float64 \<Rightarrow> float64 \<Rightarrow> bool" where
  "f_less NaN y = False"
| "f_less x NaN = False"
| "f_less (Finite a) (Finite b) = (a < b)"
| "f_less x PosInf = (x \<noteq> PosInf)"
| "f_less NegInf y = (y \<noteq> NegInf)"
| "f_less x y = False"

type_synonym shape = "nat \<times> nat \<times> nat"

type_synonym affine_row = "real \<times> real \<times> real \<times> real"

type_synonym affine = "affine_row \<times> affine_row \<times> affine_row \<times> affine_row"

type_synonym int8 = "8 word"

datatype elems = Float64 "float64 list" | Int8 "int8 list"

datatype dtype = DFloat64 | DInt8 | DOther string

text \<open>
  The header of an image names the datatype in which the data are written to a file
  (\<open>float64\<close>, \<open>int8\<close> or another one of the format, given by its name); the rest of it
  is opaque. An image in memory holds its array in the element type of
  the array, whatever the header says. A file holds an image, a figure (the plots drawn
  into it) or text.
\<close>

record nifti_header =
  data_dtype :: dtype
  header_fields :: string

record image =
  affine :: affine
  header :: nifti_header
  shape :: shape
  get_data :: elems

record plot =
  plot_function :: string
  plotted :: "string + (affine \<times> nifti_header \<times> shape \<times> nat list)"
  bg_img :: string
  display_mode :: string
  title :: string
  cut_coords :: "int list"
  options :: "(string \<times> string) list"

datatype stored = NiftiFile image | SvgFile "plot list" | TextFile string

type_synonym filesystem = "string \<rightharpoonup> stored"

fun size_of :: "elems \<Rightarrow> nat" where
  "size_of (Float64 xs) = length xs"
| "size_of (Int8 ws) = length ws"

fun dtype_of :: "elems \<Rightarrow> dtype" where
  "dtype_of (Float64 xs) = DFloat64"
| "dtype_of (Int8 ws) = DInt8"

fun as_float :: "elems \<Rightarrow> float64 list" where
  "as_float (Float64 xs) = xs"
| "as_float (Int8 ws) = map (\<lambda>w. Finite (real_of_int (sint w))) ws"

text \<open>
  \<open>nb.load(path)\<close>: the file has to exist and to be an image whose data fill its shape.
\<close>

definition nb_load :: "filesystem \<Rightarrow> string \<Rightarrow> error + image" where
  "nb_load fs path =
     (case fs path of
        None \<Rightarrow> Inl (FileNotFoundError path)
      | Some (NiftiFile img) \<Rightarrow>
          (case shape img of (nx, ny, nz) \<Rightarrow>
             if size_of (get_data img) = nx * ny * nz then Inr img else Inl (ImageFileError path))
      | Some _ \<Rightarrow> Inl (ImageFileError path))"

text \<open>
  \<open>img.to_filename(path)\<close> writes the array in the datatype of the header of the image.
  An array of that element type is written as it is. For any other array the conversion
  is nibabel's and a parameter here: given the datatype of the header and the array, it
  returns the data as the file holds them.
\<close>

definition to_filename ::
  "(dtype \<Rightarrow> elems \<Rightarrow> elems) \<Rightarrow> image \<Rightarrow> string \<Rightarrow> filesystem \<Rightarrow> filesystem" where
  "to_filename array_writer img path fs =
     fs(path \<mapsto> NiftiFile (img\<lparr>get_data :=
          if dtype_of (get_data img) = data_dtype (header img) then get_data img
          else array_writer (data_dtype (header img)) (get_data img)\<rparr>))"

text \<open>
  numpy's elementwise arithmetic and comparison with a scalar. Two \<open>int8\<close> arrays give an
  \<open>int8\<close> array; any other pair is promoted to \<open>float64\<close>.
\<close>

fun np_add :: "elems \<Rightarrow> elems \<Rightarrow> elems" where
  "np_add (Int8 a) (Int8 b) = Int8 (map2 (+) a b)"
| "np_add a b = Float64 (map2 f_add (as_float a) (as_float b))"

fun np_sub :: "elems \<Rightarrow> elems \<Rightarrow> elems" where
  "np_sub (Int8 a) (Int8 b) = Int8 (map2 (-) a b)"
| "np_sub a b = Float64 (map2 f_sub (as_float a) (as_float b))"

fun np_mul :: "elems \<Rightarrow> elems \<Rightarrow> elems" where
  "np_mul (Int8 a) (Int8 b) = Int8 (map2 (*) a b)"
| "np_mul a b = Float64 (map2 f_mul (as_float a) (as_float b))"

definition np_ge :: "elems \<Rightarrow> real \<Rightarrow> bool list" where
  "np_ge a c = map (\<lambda>x. f_ge x c) (as_float a)"

text \<open>The elements that are not zero (\<open>x != 0\<close>).\<close>

definition nonzero_mask :: "elems \<Rightarrow> bool list" where
  "nonzero_mask a = map (\<lambda>x. x \<noteq> Finite 0) (as_float a)"

text \<open>\<open>.astype('int8')\<close> of a boolean array.\<close>

definition astype_int8 :: "bool list \<Rightarrow> elems" where
  "astype_int8 bs = Int8 (map of_bool bs)"

text \<open>
  nilearn's \<open>math_img(formula, img1=..., ...)\<close> evaluates the formula on the data arrays of
  its images, which must share shape and affine (\<open>ValueError\<close> otherwise), and wraps
  the result in a new image like the last one: \<open>new_img_like\<close> takes shape and affine
  from that image and, as \<open>math_img\<close> calls it, makes a new header for the element type of
  the result. A boolean result is stored as \<open>int8\<close>. Each formula string of the notebook
  is a function on arrays below.
\<close>

definition same_fov :: "image \<Rightarrow> image \<Rightarrow> bool" where
  "same_fov a b = (shape a = shape b \<and> affine a = affine b)"

definition default_header :: "dtype \<Rightarrow> nifti_header" where
  "default_header dt = \<lparr>data_dtype = dt, header_fields = ''''\<rparr>"

definition new_img_like :: "image \<Rightarrow> elems \<Rightarrow> image" where
  "new_img_like ref_niimg data =
     \<lparr>affine = affine ref_niimg, header = default_header (dtype_of data),
      shape = shape ref_niimg, get_data = data\<rparr>"

definition math_img1 :: "(elems \<Rightarrow> elems) \<Rightarrow> image \<Rightarrow> error + image" where
  "math_img1 formula img1 = Inr (new_img_like img1 (formula (get_data img1)))"

definition math_img2 :: "(elems \<Rightarrow> elems \<Rightarrow> elems) \<Rightarrow> image \<Rightarrow> image \<Rightarrow> error + image" where
  "math_img2 formula img1 img2 =
     (if same_fov img1 img2
      then Inr (new_img_like img2 (formula (get_data img1) (get_data img2)))
      else Inl ValueError)"

definition math_img3 ::
  "(elems \<Rightarrow> elems \<Rightarrow> elems \<Rightarrow> elems) \<Rightarrow> image \<Rightarrow> image \<Rightarrow> image \<Rightarrow> error + image" where
  "math_img3 formula img1 img2 img3 =
     (if same_fov img1 img2 \<and> same_fov img1 img3
      then Inr (new_img_like img3 (formula (get_data img1) (get_data img2) (get_data img3)))
      else Inl ValueError)"

text \<open>\<open>"(img1 + img2) >= 0.25"\<close>\<close>

definition formula_sum_ge :: "elems \<Rightarrow> elems \<Rightarrow> elems" where
  "formula_sum_ge img1 img2 = astype_int8 (np_ge (np_add img1 img2) (25 / 100))"

text \<open>\<open>"img1 >= 1.0"\<close>\<close>

definition formula_ge_one :: "elems \<Rightarrow> elems" where
  "formula_ge_one img1 = astype_int8 (np_ge img1 1)"

text \<open>\<open>"(img1 + img2 - img3) >= 1.0"\<close>\<close>

definition formula_combine :: "elems \<Rightarrow> elems \<Rightarrow> elems \<Rightarrow> elems" where
  "formula_combine img1 img2 img3 = astype_int8 (np_ge (np_sub (np_add img1 img2) img3) 1)"

text \<open>\<open>"img1 * img2"\<close>\<close>

definition formula_product :: "elems \<Rightarrow> elems \<Rightarrow> elems" where
  "formula_product img1 img2 = np_mul img1 img2"

text \<open>
  scipy's binary morphology is not part of the notebook: the three routines are
  parameters. Each takes the shape and the flat boolean data of its input (an array is
  read as boolean by \<open>x != 0\<close>) and returns the flat boolean data of an array of the same
  shape; the two iterated ones take the number of iterations first.
\<close>

record morphology =
  binary_dilation :: "nat \<Rightarrow> shape \<Rightarrow> bool list \<Rightarrow> bool list"
  binary_fill_holes :: "shape \<Rightarrow> bool list \<Rightarrow> bool list"
  binary_erosion :: "nat \<Rightarrow> shape \<Rightarrow> bool list \<Rightarrow> bool list"

text \<open>\<open>s[0]\<close>, and the unpacking of a list into five names.\<close>

definition first :: "'a list \<Rightarrow> error + 'a" where
  "first s = (case s of [] \<Rightarrow> Inl IndexError | x # _ \<Rightarrow> Inr x)"

fun unpack5 :: "'a list \<Rightarrow> error + ('a \<times> 'a \<times> 'a \<times> 'a \<times> 'a)" where
  "unpack5 [a, b, c, d, e] = Inr (a, b, c, d, e)"
| "unpack5 _ = Inl ValueError"

subsection \<open>\<open>get_brain_and_mask\<close>\<close>

text \<open>
  \<open>get_brain_and_mask(in_file, segments)\<close>, with scipy's morphology, nibabel's array
  writer and the file system as further parameters. \<open>nb.Nifti1Image(data_mask, img.affine,
  img.header)\<close> keeps the header of the T1 image, and with it the datatype in which the
  mask is written.
\<close>

definition get_brain_and_mask ::
  "morphology \<Rightarrow> (dtype \<Rightarrow> elems \<Rightarrow> elems) \<Rightarrow> filesystem \<Rightarrow> string \<Rightarrow> string list list
     \<Rightarrow> error + ((string \<times> string) \<times> filesystem)" where
  "get_brain_and_mask scipy array_writer fs in_file segments =
     bindE (nb_load fs in_file) (\<lambda>img.
     bindE (mapE first segments) (\<lambda>firsts.
     bindE (unpack5 firsts) (\<lambda>(gm, wm, csf, skull, head).
     bindE (nb_load fs gm) (\<lambda>gm_img.
     bindE (nb_load fs wm) (\<lambda>wm_img.
     bindE (math_img2 formula_sum_ge gm_img wm_img) (\<lambda>img_gmwm.
     bindE (nb_load fs csf) (\<lambda>csf_img.
     bindE (math_img1 formula_ge_one csf_img) (\<lambda>img_csf.
     bindE (nb_load fs head) (\<lambda>head_img.
     bindE (nb_load fs skull) (\<lambda>skull_img.
     bindE (math_img2 formula_sum_ge head_img skull_img) (\<lambda>img_not_rest.
     bindE (math_img3 formula_combine img_gmwm img_csf img_not_rest) (\<lambda>img_mask.
       let data_mask = astype_int8
             (binary_erosion scipy 1 (shape img_mask)
               (binary_fill_holes scipy (shape img_mask)
                 (binary_dilation scipy 2 (shape img_mask)
                   (nonzero_mask (get_data img_mask)))));
           img_mask = \<lparr>affine = affine img, header = header img,
                       shape = shape img_mask, get_data = data_mask\<rparr>
       in
     bindE (math_img2 formula_product img img_mask) (\<lambda>img_brain.
       let out_file = str_replace in_file ''.nii'' ''_brain.nii'';
           mask = str_replace in_file ''.nii'' ''_brainmask.nii''
       in Inr ((out_file, mask),
               to_filename array_writer img_mask mask
                 (to_filename array_writer img_brain out_file fs)))))))))))))))"

subsection \<open>\<open>write_report\<close> and its helper \<open>get_cut_ids\<close>\<close>

text \<open>\<open>np.nonzero\<close>: the indices of the non-zero elements, in C order, one array of coordinates per axis.\<close>

definition unravel :: "shape \<Rightarrow> nat \<Rightarrow> nat \<times> nat \<times> nat" where
  "unravel shp n = (case shp of (nx, ny, nz) \<Rightarrow> (n div (ny * nz), (n div nz) mod ny, n mod nz))"

definition nonzero :: "image \<Rightarrow> (nat \<times> nat \<times> nat) list" where
  "nonzero img =
     map (\<lambda>(n, b). unravel (shape img) n)
         (filter (\<lambda>(n, b). b) (enumerate 0 (nonzero_mask (get_data img))))"

definition nonzero_axis :: "image \<Rightarrow> nat \<Rightarrow> error + nat list" where
  "nonzero_axis img axis =
     (if axis = 0 then Inr (map (\<lambda>(i, j, k). i) (nonzero img))
      else if axis = 1 then Inr (map (\<lambda>(i, j, k). j) (nonzero img))
      else if axis = 2 then Inr (map (\<lambda>(i, j, k). k) (nonzero img))
      else Inl IndexError)"

text \<open>\<open>idx.min()\<close> and \<open>idx.max()\<close> raise \<open>ValueError\<close> on an empty array.\<close>

definition np_min :: "nat list \<Rightarrow> error + nat" where
  "np_min idx = (if idx = [] then Inl ValueError else Inr (Min (set idx)))"

definition np_max :: "nat list \<Rightarrow> error + nat" where
  "np_max idx = (if idx = [] then Inl ValueError else Inr (Max (set idx)))"

text \<open>
  \<open>np.linspace(start, stop, num, endpoint=True)\<close> for \<open>num > 1\<close>, and the conversions
  \<open>.astype('int')\<close> and \<open>int(x)\<close>, which truncate towards zero. The arithmetic is exact
  here. For the integer end points that \<open>get_cut_ids\<close> passes, a sample
  \<open>start + i * (stop - start) / 11\<close> is either an integer, and then the step is an integer
  and float64 computes it exactly, or at least \<open>1 / 11\<close> away from one, so truncating the
  float64 value gives the same integer.
\<close>

definition np_linspace :: "real \<Rightarrow> real \<Rightarrow> nat \<Rightarrow> real list" where
  "np_linspace start stop num =
     map (\<lambda>i. start + real i * ((stop - start) / real (num - 1))) [0..<num]"

definition py_int :: "real \<Rightarrow> int" where
  "py_int x = (if x \<ge> 0 then \<lfloor>x\<rfloor> else \<lceil>x\<rceil>)"

text \<open>
  nilearn's \<open>coord_transform(x, y, z, affine)\<close>: the affine applied to \<open>(x, y, z, 1)\<close>,
  in exact arithmetic.
\<close>

definition coord_transform :: "real \<Rightarrow> real \<Rightarrow> real \<Rightarrow> affine \<Rightarrow> real \<times> real \<times> real" where
  "coord_transform x y z aff =
     (case aff of ((a00, a01, a02, a03), (a10, a11, a12, a13), (a20, a21, a22, a23), last_row) \<Rightarrow>
        (a00 * x + a01 * y + a02 * z + a03,
         a10 * x + a11 * y + a12 * z + a13,
         a20 * x + a21 * y + a22 * z + a23))"

definition get_cut_ids :: "image \<Rightarrow> nat \<Rightarrow> error + int list" where
  "get_cut_ids img axis =
     bindE (nonzero_axis img axis) (\<lambda>coords.
       let idx = sort coords in
     bindE (np_min idx) (\<lambda>idx_min.
     bindE (np_max idx) (\<lambda>idx_max.
       let vox_id = map py_int (np_linspace (real idx_min) (real idx_max) 12);
           vox_id = drop 2 (take (length vox_id - 2) vox_id)
       in
         if axis = 0
         then Inr (map (\<lambda>r. case coord_transform (real_of_int r) 0 0 (affine img) of
                                (x, y, z) \<Rightarrow> py_int x) vox_id)
         else if axis = 1
         then Inr (map (\<lambda>r. case coord_transform 0 (real_of_int r) 0 (affine img) of
                                (x, y, z) \<Rightarrow> py_int y) vox_id)
         else if axis = 2
         then Inr (map (\<lambda>r. case coord_transform 0 0 (real_of_int r) (affine img) of
                                (x, y, z) \<Rightarrow> py_int z) vox_id)
         else Inl UnboundLocalError)))"

text \<open>\<open>xs[i]\<close> on a list.\<close>

definition item :: "'a list \<Rightarrow> nat \<Rightarrow> error + 'a" where
  "item xs i = (if i < length xs then Inr (xs ! i) else Inl IndexError)"

text \<open>
  \<open>np.argmax\<close> of a non-empty row: the index of the first NaN if there is one, and the
  first index of the maximum otherwise.
\<close>

definition argmax :: "float64 list \<Rightarrow> nat" where
  "argmax xs =
     (if NaN \<in> set xs then length (takeWhile (\<lambda>x. x \<noteq> NaN) xs)
      else length (takeWhile (\<lambda>x. list_ex (f_less x) xs) xs))"

text \<open>
  \<open>np.argmax(np.stack((zeros, seg0, ..., seg4), axis=-1), axis=-1)\<close>: the stack needs arrays
  of one shape (\<open>ValueError\<close> otherwise); label 0 is the background.
\<close>

definition label_id :: "image \<Rightarrow> image list \<Rightarrow> error + nat list" where
  "label_id img segs =
     (if list_all (\<lambda>s. shape s = shape img) segs
      then Inr (map (\<lambda>n. argmax (Finite 0 # map (\<lambda>s. as_float (get_data s) ! n) segs))
                    [0..<size_of (get_data img)])
      else Inl ValueError)"

definition title_txt :: "string \<Rightarrow> string \<Rightarrow> string" where
  "title_txt sub sess = ''sub: '' @ sub @ (if sess \<noteq> '''' then '' - sess: '' @ sess else '''')"

text \<open>
  The HTML text and the file name of the report: the part of \<open>write_report\<close> under
  \<open>with open('/templates/report_template.html', 'r')\<close>.
\<close>

definition fill_template :: "string \<Rightarrow> string \<Rightarrow> string \<Rightarrow> string \<times> string" where
  "fill_template txt sub sess =
     (let txt = str_replace txt ''sub-placeholder'' (''sub-'' @ sub) in
      if sess \<noteq> ''''
      then (str_replace txt ''ses-placeholder'' (''ses-'' @ sess),
            ''sub-'' @ sub @ ''_ses-'' @ sess @ ''.html'')
      else (str_replace (str_replace txt ''ses-placeholder'' '''') ''__'' ''_'',
            ''sub-'' @ sub @ ''.html''))"

definition read_text :: "filesystem \<Rightarrow> string \<Rightarrow> error + string" where
  "read_text fs path =
     (case fs path of
        None \<Rightarrow> Inl (FileNotFoundError path)
      | Some (TextFile txt) \<Rightarrow> Inr txt
      | Some _ \<Rightarrow> Inl ValueError)"

definition savefig :: "plot list \<Rightarrow> string \<Rightarrow> filesystem \<Rightarrow> filesystem" where
  "savefig fig path fs = fs(path \<mapsto> SvgFile fig)"

text \<open>
  The plotting routines of nilearn are black boxes: a call is recorded with its
  arguments, the keyword arguments that do not vary as text.
\<close>

definition plot_roi_options :: "(string \<times> string) list" where
  "plot_roi_options =
     [(''cmap'', ''Accent''), (''dim'', ''1''), (''annotate'', ''False''),
      (''resampling_interpolation'', ''nearest'')]"

definition plot_stat_map_options :: "(string \<times> string) list" where
  "plot_stat_map_options =
     [(''colorbar'', ''False''), (''threshold'', ''auto''), (''cmap'', ''magma''),
      (''resampling_interpolation'', ''nearest''), (''annotate'', ''False'')]"

definition axes :: "(nat \<times> string) list" where
  "axes = enumerate 0 [''x'', ''y'', ''z'']"

definition write_report ::
  "string \<Rightarrow> string \<Rightarrow> string \<Rightarrow> string list list \<Rightarrow> string \<Rightarrow> string \<Rightarrow> string \<Rightarrow> filesystem
     \<Rightarrow> error + ((string \<times> string \<times> string) \<times> filesystem)" where
  "write_report sub sess n4_file segments brain T1_template warped_file fs =
     bindE (nb_load fs brain) (\<lambda>img.
     bindE (mapE (\<lambda>i. bindE (item segments i) (\<lambda>s. bindE (first s) (nb_load fs)))
                 [0, 1, 2, 3, 4]) (\<lambda>segs.
     bindE (label_id img segs) (\<lambda>labels.
     bindE (mapE (\<lambda>(i, e). bindE (get_cut_ids img i) (\<lambda>cuts.
              Inr \<lparr>plot_function = ''plot_roi'',
                   plotted = Inr (affine img, header img, shape img, labels),
                   bg_img = n4_file, display_mode = e,
                   title = title_txt sub sess @ '' - '' @ e @ ''-axis'',
                   cut_coords = cuts, options = plot_roi_options\<rparr>)) axes) (\<lambda>fig.
       let out_segmentation = str_replace brain ''brain.nii.gz'' ''segmentation.svg'';
           fs = savefig fig out_segmentation fs
       in
     bindE (mapE (\<lambda>(i, e). bindE (nb_load fs brain) (\<lambda>b. bindE (get_cut_ids b i) (\<lambda>cuts.
              Inr \<lparr>plot_function = ''plot_stat_map'', plotted = Inl brain,
                   bg_img = n4_file, display_mode = e,
                   title = title_txt sub sess @ '' - '' @ e @ ''-axis'',
                   cut_coords = cuts,
                   options = (''dim'', ''-1'') # plot_stat_map_options\<rparr>))) axes) (\<lambda>fig.
       let out_brain = str_replace brain ''.nii.gz'' ''.svg'';
           fs = savefig fig out_brain fs
       in
     bindE (mapE (\<lambda>(i, e). bindE (nb_load fs warped_file) (\<lambda>w. bindE (get_cut_ids w i) (\<lambda>cuts.
              Inr \<lparr>plot_function = ''plot_stat_map'', plotted = Inl warped_file,
                   bg_img = T1_template, display_mode = e,
                   title = title_txt sub sess @ '' - '' @ e @ ''-axis'',
                   cut_coords = cuts, options = plot_stat_map_options\<rparr>))) axes) (\<lambda>fig.
       let out_warp = str_replace warped_file ''.nii.gz'' ''.svg'';
           fs = savefig fig out_warp fs
       in
     bindE (read_text fs ''/templates/report_template.html'') (\<lambda>txt.
       case fill_template txt sub sess of (txt, filename) \<Rightarrow>
       let report_file = os_path_join ''/data'' [''derivatives'', ''fmriflows'', filename]
       in Inr ((out_segmentation, out_brain, out_warp),
               fs(report_file \<mapsto> TextFile txt)))))))))"

text \<open>The translation of a voxel index along an axis to image space, and the twelve
  evenly spaced indices between two voxel indices, with the samples truncated.\<close>

definition to_image_space :: "image \<Rightarrow> nat \<Rightarrow> int \<Rightarrow> int" where
  "to_image_space img axis r =
     (if axis = 0 then py_int (fst (coord_transform (real_of_int r) 0 0 (affine img)))
      else if axis = 1 then py_int (fst (snd (coord_transform 0 (real_of_int r) 0 (affine img))))
      else py_int (snd (snd (coord_transform 0 0 (real_of_int r) (affine img)))))"

definition evenly_spaced :: "nat \<Rightarrow> nat \<Rightarrow> int list" where
  "evenly_spaced lo hi = map (\<lambda>i. int lo + (int i * (int hi - int lo)) div 11) [0..<12]"

text \<open>
  The brain mask in the words of its description: the voxelwise predicate
  \<open>((GM + WM >= 0.25) + (CSF >= 1.0) - (head + skull >= 0.25)) >= 1.0\<close>, truth values
  counting as 0 and 1, refined by two iterations of dilation, hole filling and one
  iteration of erosion.
\<close>

definition tissue_predicate :: "elems \<Rightarrow> elems \<Rightarrow> elems \<Rightarrow> elems \<Rightarrow> elems \<Rightarrow> bool list" where
  "tissue_predicate gm wm csf skull head =
     map (\<lambda>(gmwm, c, rest). (of_bool gmwm + of_bool c - of_bool rest :: int) \<ge> 1)
         (zip (np_ge (np_add gm wm) (25 / 100))
              (zip (np_ge csf 1) (np_ge (np_add head skull) (25 / 100))))"

definition refine_mask :: "morphology \<Rightarrow> shape \<Rightarrow> bool list \<Rightarrow> bool list" where
  "refine_mask scipy shp pre =
     binary_erosion scipy 1 shp (binary_fill_holes scipy shp (binary_dilation scipy 2 shp pre))"

text \<open>
  What is known of scipy's three routines: each returns an array of the shape of its
  input. A value is finite when it is neither an infinity nor NaN.
\<close>

definition keeps_shape :: "morphology \<Rightarrow> bool" where
  "keeps_shape scipy =
     ((\<forall>iterations shp bits. length (binary_dilation scipy iterations shp bits) = length bits)
      \<and> (\<forall>shp bits. length (binary_fill_holes scipy shp bits) = length bits)
      \<and> (\<forall>iterations shp bits. length (binary_erosion scipy iterations shp bits) = length bits))"

fun is_finite :: "float64 \<Rightarrow> bool" where
  "is_finite (Finite a) = True"
| "is_finite x = False"

text \<open>
  A string ends with \<open>old\<close> and holds \<open>old\<close> at no earlier position.
\<close>

definition ends_with_only :: "string \<Rightarrow> string \<Rightarrow> bool" where
  "ends_with_only old s =
     (suffix old s \<and> list_all (\<lambda>n. \<not> prefix old (drop n s)) [0..<length s - length old])"

subsection \<open>A small dataset for evaluation\<close>

text \<open>
  Two voxels in a row, 2 mm apart. The first voxel is brain tissue, the second one lies
  in the skull. The images are stored as \<open>float64\<close>. The morphology used for evaluation
  leaves its input as it is, the array writer converts \<open>int8\<close> data to \<open>float64\<close> exactly
  and is not needed for anything else, and no pattern of a path asks for a regular
  expression. In the second file system the T1 image has no value in the voxel outside
  the mask.
\<close>

definition example_affine :: affine where
  "example_affine = ((2, 0, 0, -10), (0, 2, 0, -20), (0, 0, 2, -30), (0, 0, 0, 1))"

definition example_header :: nifti_header where
  "example_header = \<lparr>data_dtype = DFloat64, header_fields = ''hdr''\<rparr>"

definition example_volume :: "float64 list \<Rightarrow> image" where
  "example_volume voxels =
     \<lparr>affine = example_affine, header = example_header, shape = (2, 1, 1),
      get_data = Float64 voxels\<rparr>"

definition example_image :: "real list \<Rightarrow> image" where
  "example_image voxels = example_volume (map Finite voxels)"

definition example_segments :: "string list list" where
  "example_segments = [[''/w/c1T1.nii''], [''/w/c2T1.nii''], [''/w/c3T1.nii''],
                       [''/w/c4T1.nii''], [''/w/c5T1.nii'']]"

definition example_fs :: filesystem where
  "example_fs =
     [''/w/T1.nii.gz'' \<mapsto> NiftiFile (example_image [100, 50]),
      ''/w/c1T1.nii'' \<mapsto> NiftiFile (example_image [6 / 10, 1 / 10]),
      ''/w/c2T1.nii'' \<mapsto> NiftiFile (example_image [3 / 10, 0]),
      ''/w/c3T1.nii'' \<mapsto> NiftiFile (example_image [0, 2 / 10]),
      ''/w/c4T1.nii'' \<mapsto> NiftiFile (example_image [0, 5 / 10]),
      ''/w/c5T1.nii'' \<mapsto> NiftiFile (example_image [0, 3 / 10]),
      ''/w/T1_brain.nii.gz'' \<mapsto> NiftiFile (example_image [100, 0]),
      ''/w/warped.nii.gz'' \<mapsto> NiftiFile (example_image [90, 0]),
      ''/templates/report_template.html'' \<mapsto> TextFile ''sub-placeholder_ses-placeholder_brain.svg'']"

definition example_fs_nan :: filesystem where
  "example_fs_nan =
     example_fs(''/w/T1.nii.gz'' \<mapsto> NiftiFile (example_volume [Finite 100, NaN]))"


definition no_morphology :: morphology where
  "no_morphology =
     \<lparr>binary_dilation = (\<lambda>iterations shp bits. bits),
      binary_fill_holes = (\<lambda>shp bits. bits),
      binary_erosion = (\<lambda>iterations shp bits. bits)\<rparr>"

definition example_writer :: "dtype \<Rightarrow> elems \<Rightarrow> elems" where
  "example_writer dt data = (if dt = DFloat64 then Float64 (as_float data) else data)"

definition no_re_match :: "string \<Rightarrow> string \<Rightarrow> bool option" where
  "no_re_match pattern s = None"

definition example_dataset :: dataset where
  "example_dataset =
     \<lparr>subject_list = [''01'', ''02''], T1_id = ''T1w'', norm_res = [''1'', ''1'', ''1''],
      n_proc = 4, get_sessions = []\<rparr>"

definition example_order :: "string list" where
  "example_order =
     [''infosource'', ''selectfiles'', ''reorient'', ''cropFOV'', ''n4'', ''gunzip'', ''segment'',
      ''extract_brain'', ''antsreg'', ''create_report'', ''datasink'']"

section \<open>Properties\<close>

subsection \<open>File naming\<close>

lemma bindE_simps [simp]:
  "bindE (Inr x) f = f x"
  "bindE (Inl e) f = Inl e"
  by (simp_all add: bindE_def)

text \<open>
  A replacement leaves a prefix of the string alone when the prefix lacks a character of
  the text to replace and no occurrence can start in the prefix and end behind it.
\<close>

lemma str_replace_skip:
  assumes "x \<notin> set u" and "x \<notin> set (take (length a) v)"
  shows "str_replace (u @ v) (a @ x # b) new = u @ str_replace v (a @ x # b) new"
  using assms(1)
proof (induction u)
  case Nil
  show ?case by simp
next
  case (Cons c u)
  have "\<not> prefix (a @ x # b) (c # u @ v)"
  proof
    assume "prefix (a @ x # b) (c # u @ v)"
    then obtain t where t: "c # u @ v = a @ x # b @ t"
      by (auto simp: prefix_def)
    then have n: "(c # u @ v) ! length a = x"
      by (simp add: nth_append)
    have len: "length (c # u) + length v = length a + Suc (length b + length t)"
      using arg_cong [OF t, of length] by simp
    show False
    proof (cases "length a < length (c # u)")
      case True
      then have "(c # u @ v) ! length a = (c # u) ! length a"
        using nth_append [of "c # u" v "length a"] by simp
      with n have "(c # u) ! length a = x"
        by simp
      with True have "x \<in> set (c # u)"
        using nth_mem [of "length a" "c # u"] by simp
      with Cons.prems show False
        by simp
    next
      case False
      define i where "i = length a - length (c # u)"
      from False have "(c # u @ v) ! length a = v ! i"
        using nth_append [of "c # u" v "length a"] by (simp add: i_def)
      with n have v: "v ! i = x"
        by simp
      have i: "i < length a" "i < length v"
        using False len by (simp_all add: i_def)
      then have "take (length a) v ! i = x" "i < length (take (length a) v)"
        using v by simp_all
      then have "x \<in> set (take (length a) v)"
        using nth_mem [of i "take (length a) v"] by simp
      with assms(2) show False
        by simp
    qed
  qed
  with Cons show ?case
    by simp
qed

lemma findall_skip: "l \<notin> set u \<Longrightarrow> findall l r (u @ v) = findall l r v"
  by (induction u) auto

lemma str_replace_skip_brace:
  assumes "CHR ''{'' \<notin> set u"
  shows "str_replace (u @ v) (CHR ''{'' # b) new = u @ str_replace v (CHR ''{'' # b) new"
  using str_replace_skip [of "CHR ''{''" u "[]" v b new] assms by simp


lemma entity_specs:
  "entity_spec ''subject_id'' = Some (''subject_id'', None, None)"
  "entity_spec ''session_id'' = Some (''session_id'', None, None)"
  "entity_spec ''T1_id'' = Some (''T1_id'', None, None)"
  by (simp_all add: entity_spec_def)

text \<open>
  The path of identifiers that contain no opening brace, without and with a session.
\<close>

lemma create_file_path_no_session:
  assumes "CHR ''{'' \<notin> set subject_id" and "CHR ''{'' \<notin> set T1"
  shows "create_file_path re_match subject_id '''' T1
         = Inr (''/data/sub-'' @ subject_id @ ''/anat/sub-'' @ subject_id @ ''_'' @ T1 @ ''.nii.gz'')"
  using assms
  by (simp add: create_file_path_def Let_def replace_entities_def entity_specs
        str_replace_skip_brace findall_skip suffix_to_prefix)


subsection \<open>The workflow graph\<close>

lemma node_names:
  "name reorient = ''reorient''" "name cropFOV = ''cropFOV''" "name n4 = ''n4''"
  "name gunzip = ''gunzip''" "name segment = ''segment''"
  "name extract_brain = ''extract_brain''" "name (antsreg ds) = ''antsreg''"
  "name create_report = ''create_report''" "name (infosource ds) = ''infosource''"
  "name (selectfiles ds) = ''selectfiles''" "name (datasink ds) = ''datasink''"
  by (simp_all add: reorient_def cropFOV_def n4_def gunzip_def segment_def extract_brain_def
      antsreg_def create_report_def infosource_def selectfiles_def datasink_def)

lemma node_interfaces:
  "interface reorient = Reorient" "interface cropFOV = RobustFOV"
  "interface n4 = N4BiasFieldCorrection" "interface gunzip = Gunzip"
  "interface segment = NewSegment"
  "interface extract_brain
     = Function [''in_file'', ''segments''] [''out_file'', ''mask''] ''get_brain_and_mask''"
  "interface (antsreg ds) = Registration"
  "interface create_report
     = Function [''sub'', ''sess'', ''n4'', ''segments'', ''brain'', ''T1_template'', ''warped_file'']
         [''out_segmentation'', ''out_brain'', ''out_warp''] ''write_report''"
  "interface (infosource ds) = IdentityInterface [''subject_id'', ''session_id'']"
  "interface (selectfiles ds)
     = Function [''subject_id'', ''session_id'', ''layout'', ''T1_id''] [''anat''] ''create_file_path''"
  "interface (datasink ds) = DataSink"
  by (simp_all add: reorient_def cropFOV_def n4_def gunzip_def segment_def extract_brain_def
      antsreg_def create_report_def infosource_def selectfiles_def datasink_def)

lemma node_neq:
  "name u \<noteq> name v \<Longrightarrow> u \<noteq> v"
  by auto

lemma workflow_nodes_eq:
  "workflow_nodes ds =
     [selectfiles ds, reorient, cropFOV, gunzip, infosource ds, n4, segment, extract_brain,
      antsreg ds, create_report, datasink ds]"
  unfolding workflow_nodes_def connect_def
  by (simp add: node_neq node_names)

lemma dependencies_eq:
  "dependencies ds =
     [(''infosource'', ''selectfiles''), (''selectfiles'', ''reorient''),
      (''reorient'', ''cropFOV''), (''cropFOV'', ''n4''), (''n4'', ''gunzip''),
      (''gunzip'', ''segment''), (''segment'', ''extract_brain''), (''n4'', ''extract_brain''),
      (''extract_brain'', ''antsreg''), (''n4'', ''datasink''), (''segment'', ''datasink''),
      (''extract_brain'', ''datasink''), (''antsreg'', ''datasink''),
      (''infosource'', ''create_report''), (''n4'', ''create_report''),
      (''segment'', ''create_report''), (''extract_brain'', ''create_report''),
      (''antsreg'', ''create_report''), (''create_report'', ''datasink'')]"
  unfolding dependencies_def connect_def by (simp add: node_names)

lemma dependencies_ranked_all:
  "list_all (\<lambda>(a, b). topo_rank a < topo_rank b) (dependencies ds)"
  unfolding dependencies_eq by (simp add: topo_rank_def)

lemma dependencies_ranked:
  "(a, b) \<in> set (dependencies ds) \<Longrightarrow> topo_rank a < topo_rank b"
  using dependencies_ranked_all [of ds] unfolding list_all_iff by blast

lemma dependencies_acyclic: "acyclic (set (dependencies ds))"
proof -
  have "acyclic ((set (dependencies ds))\<inverse>)"
    by (rule acyclicI_order [where f = topo_rank]) (simp add: dependencies_ranked)
  then show ?thesis by simp
qed

lemma connections_ok: "list_all (connection_ok ds) (connect ds)"
  unfolding connection_ok_def workflow_nodes_eq
  by (simp add: connect_def node_interfaces)

text \<open>
  C3. The connections of the workflow form a directed acyclic graph over its named nodes:
  every connection leads from an output of its source node to an input of its destination
  node (compared with the port names where the notebook declares them), the names of the
  nodes are distinct, and no chain of connections returns to the node it started from.
\<close>

theorem workflow_is_dag:
  "list_all (connection_ok ds) (connect ds)
   \<and> distinct (map name (workflow_nodes ds))
   \<and> acyclic (set (dependencies ds))"
  using connections_ok dependencies_acyclic by (simp add: workflow_nodes_eq node_names)

subsection \<open>The data flow of one run\<close>

lemma incoming_eq:
  "incoming ds (infosource ds) = []"
  "incoming ds (selectfiles ds)
     = [(infosource ds, ''subject_id'', ''subject_id''), (infosource ds, ''session_id'', ''session_id'')]"
  "incoming ds reorient = [(selectfiles ds, ''anat'', ''in_file'')]"
  "incoming ds cropFOV = [(reorient, ''out_file'', ''in_file'')]"
  "incoming ds n4 = [(cropFOV, ''out_roi'', ''input_image'')]"
  "incoming ds gunzip = [(n4, ''output_image'', ''in_file'')]"
  "incoming ds segment = [(gunzip, ''out_file'', ''channel_files'')]"
  "incoming ds extract_brain
     = [(segment, ''native_class_images'', ''segments''), (n4, ''output_image'', ''in_file'')]"
  "incoming ds (antsreg ds) = [(extract_brain, ''out_file'', ''moving_image'')]"
  unfolding incoming_def connect_def by (simp_all add: node_names)

lemma node_out_infosource:
  "node_out ds combo (Suc k) (infosource ds) p = Some (run_node combo (infosource ds) [] p)"
  by (simp add: incoming_eq run_node_def)

lemma node_out_selectfiles:
  "node_out ds combo (Suc (Suc k)) (selectfiles ds) ''anat'' = Some (anat_file ds combo)"
  by (subst node_out.simps(2))
     (simp add: incoming_eq node_out_infosource run_node_def anat_file_def del: node_out.simps)

lemma node_out_reorient:
  "node_out ds combo (Suc (Suc (Suc k))) reorient ''out_file'' = Some (reoriented ds combo)"
  by (subst node_out.simps(2))
     (simp add: incoming_eq node_out_selectfiles run_node_def reoriented_def del: node_out.simps)

lemma node_out_cropFOV:
  "node_out ds combo (Suc (Suc (Suc (Suc k)))) cropFOV ''out_roi'' = Some (cropped ds combo)"
  by (subst node_out.simps(2))
     (simp add: incoming_eq node_out_reorient run_node_def cropped_def del: node_out.simps)

lemma node_out_n4:
  "node_out ds combo (Suc (Suc (Suc (Suc (Suc k))))) n4 ''output_image''
     = Some (bias_corrected ds combo)"
  by (subst node_out.simps(2))
     (simp add: incoming_eq node_out_cropFOV run_node_def bias_corrected_def del: node_out.simps)

lemma node_out_segment:
  "node_out ds combo (Suc (Suc (Suc (Suc (Suc (Suc (Suc k))))))) segment ''native_class_images''
     = Some (tissue_maps ds combo)"
  by (subst node_out.simps(2), simp only: incoming_eq, subst node_out.simps(2))
     (simp add: incoming_eq node_out_n4 run_node_def tissue_maps_def del: node_out.simps)

lemma node_out_extract_brain:
  "node_out ds combo (Suc (Suc (Suc (Suc (Suc (Suc (Suc (Suc k)))))))) extract_brain ''out_file''
     = Some (extracted_brain ds combo)"
  using node_out_n4 [of ds combo "Suc (Suc k)"]
  by (subst node_out.simps(2))
     (simp add: incoming_eq node_out_segment run_node_def extracted_brain_def del: node_out.simps)

lemma node_out_antsreg:
  "node_out ds combo (9 + k) (antsreg ds) ''warped_image'' = Some (normalized ds combo)"
proof -
  have "9 + k = Suc (Suc (Suc (Suc (Suc (Suc (Suc (Suc (Suc k))))))))"
    by simp
  then show ?thesis
    by (simp only:, subst node_out.simps(2))
       (simp add: incoming_eq node_out_extract_brain run_node_def normalized_def del: node_out.simps)
qed

lemma combinations_infosource:
  "combinations (iterables (infosource ds))
     = concat (map (\<lambda>sub. map (\<lambda>sess. [(''subject_id'', sub), (''session_id'', sess)])
                                (session_list (get_sessions ds))) (subject_list ds))"
  by (simp add: infosource_def comp_def)

lemma steps_ordered:
  assumes "respects_connections ds order"
  shows "position order ''reorient'' < position order ''cropFOV''
       \<and> position order ''cropFOV'' < position order ''n4''
       \<and> position order ''n4'' < position order ''segment''
       \<and> position order ''segment'' < position order ''extract_brain''
       \<and> position order ''extract_brain'' < position order ''antsreg''"
proof -
  from assms have "list_all (\<lambda>(a, b). position order a < position order b) (dependencies ds)"
    by (simp add: respects_connections_def)
  then have "position order ''reorient'' < position order ''cropFOV''"
    "position order ''cropFOV'' < position order ''n4''"
    "position order ''n4'' < position order ''gunzip''"
    "position order ''gunzip'' < position order ''segment''"
    "position order ''segment'' < position order ''extract_brain''"
    "position order ''extract_brain'' < position order ''antsreg''"
    unfolding dependencies_eq by simp_all
  then show ?thesis
    by simp
qed

text \<open>
  C1. For every combination of a subject and a session that the iterables of \<open>infosource\<close>
  produce, the normalised image results from six processing steps applied in dependency
  order: the selected anatomical file is reoriented (to RAS), the reoriented image is
  cropped, the crop is bias-corrected, the bias-corrected image is segmented (the
  \<open>gunzip\<close> node unpacks it for the segmentation), the brain is extracted from the
  bias-corrected image and the segmentation maps, and the extracted brain is registered
  to the resampled template, the fixed image of the registration. Every execution order
  that respects the connections runs the six steps in this order.
\<close>

theorem six_steps_in_dependency_order:
  "(\<forall>combo \<in> set (combinations (iterables (infosource ds))).
      node_out ds combo (9 + k) (antsreg ds) ''warped_image'' = Some (normalized ds combo))
   \<and> map interface [reorient, cropFOV, n4, gunzip, segment, extract_brain, antsreg ds]
       = [Reorient, RobustFOV, N4BiasFieldCorrection, Gunzip, NewSegment,
          Function [''in_file'', ''segments''] [''out_file'', ''mask''] ''get_brain_and_mask'',
          Registration]
   \<and> map_of (inputs reorient) ''orientation'' = Some (PyStr ''RAS'')
   \<and> map_of (inputs (antsreg ds)) ''fixed_image'' = Some (PyStr (norm_template ds))
   \<and> (\<forall>order. respects_connections ds order \<longrightarrow>
          position order ''reorient'' < position order ''cropFOV''
        \<and> position order ''cropFOV'' < position order ''n4''
        \<and> position order ''n4'' < position order ''segment''
        \<and> position order ''segment'' < position order ''extract_brain''
        \<and> position order ''extract_brain'' < position order ''antsreg'')"
proof -
  have "map_of (inputs reorient) ''orientation'' = Some (PyStr ''RAS'')"
    "map_of (inputs (antsreg ds)) ''fixed_image'' = Some (PyStr (norm_template ds))"
    by (simp_all add: reorient_def antsreg_def)
  then show ?thesis
    using steps_ordered [of ds] by (simp add: node_out_antsreg node_interfaces del: node_out.simps)
qed

subsection \<open>Error values, arrays and cut coordinates\<close>

lemma bindE_Inr_iff: "bindE m f = Inr y \<longleftrightarrow> (\<exists>x. m = Inr x \<and> f x = Inr y)"
  by (cases m) simp_all

lemma nonzero_empty_iff:
  "nonzero img = [] \<longleftrightarrow> list_all (\<lambda>x. x = Finite 0) (as_float (get_data img))"
proof -
  have "filter (\<lambda>(n, b). b) (enumerate k bs) = [] \<longleftrightarrow> list_all (\<lambda>b. \<not> b) bs" for k and bs :: "bool list"
    by (induction bs arbitrary: k) auto
  then show ?thesis
    by (simp add: nonzero_def nonzero_mask_def list_all_iff)
qed

lemma nonzero_axis_Inr:
  "axis < 3 \<Longrightarrow> \<exists>coords. nonzero_axis img axis = Inr coords \<and> length coords = length (nonzero img)"
  by (auto simp: nonzero_axis_def)

lemma py_int_linspace:
  assumes "lo \<le> hi"
  shows "py_int (real lo + real i * ((real hi - real lo) / 11))
         = int lo + (int i * (int hi - int lo)) div 11"
proof -
  define x where "x = int i * (int hi - int lo)"
  have nn: "0 \<le> real lo + real i * ((real hi - real lo) / 11)"
    using assms by simp
  have e: "real lo + real i * ((real hi - real lo) / 11)
           = real_of_int (int lo) + real_of_int x / real_of_int 11"
    by (simp add: x_def)
  have "\<lfloor>real_of_int (int lo) + real_of_int x / real_of_int 11\<rfloor> = int lo + x div 11"
    by (simp only: int_add_floor [symmetric] floor_divide_of_int_eq)
  with e nn show ?thesis
    by (simp add: py_int_def x_def)
qed

lemma linspace12:
  assumes "lo \<le> hi"
  shows "map py_int (np_linspace (real lo) (real hi) 12)
         = map (\<lambda>i. int lo + (int i * (int hi - int lo)) div 11) [0..<12]"
  unfolding np_linspace_def map_map comp_def
  using py_int_linspace [OF assms] by simp


lemma get_cut_ids_nonempty:
  assumes "axis < 3" and "nonzero_axis img axis = Inr coords" and "coords \<noteq> []"
  shows "get_cut_ids img axis
         = Inr (map (to_image_space img axis)
                  (drop 2 (take 10 (evenly_spaced (Min (set coords)) (Max (set coords))))))"
proof -
  have le: "Min (set coords) \<le> Max (set coords)"
    using assms(3) by simp
  have "length (sort coords) = length coords"
    by simp
  with assms(3) have idx: "(sort coords = []) = False" "set (sort coords) = set coords"
    by (auto simp del: length_sort)
  have len: "length (map py_int (np_linspace (real (Min (set coords))) (real (Max (set coords))) 12)) = 12"
    by (simp add: np_linspace_def)
  have axis: "axis = 0 \<or> axis = 1 \<or> axis = 2"
    using assms(1) by arith
  show ?thesis
    unfolding get_cut_ids_def assms(2) bindE_simps Let_def np_min_def np_max_def idx len
    using axis
    by (auto simp: linspace12 [OF le] evenly_spaced_def to_image_space_def split: prod.splits)
qed

subsection \<open>String replacement and the report\<close>

lemma str_replace_suffix:
  assumes "old \<noteq> []" and "ends_with_only old s"
  shows "str_replace s old new = take (length s - length old) s @ new"
  using assms(2)
proof (induction s)
  case Nil
  with assms(1) show ?case
    by (simp add: ends_with_only_def)
next
  case (Cons c t)
  from Cons.prems have suf: "suffix old (c # t)"
    and occ: "\<forall>n < length (c # t) - length old. \<not> prefix old (drop n (c # t))"
    by (auto simp: ends_with_only_def list_all_iff)
  show ?case
  proof (cases "length (c # t) = length old")
    case True
    with suf have "old = c # t"
      by (metis suffix_def append_eq_append_conv append_Nil)
    with assms(1) show ?thesis
      by simp
  next
    case False
    from suf have "length old \<le> length (c # t)"
      by (rule suffix_length_le)
    with False have lt: "length old \<le> length t"
      by simp
    then have pos: "0 < length (c # t) - length old"
      by simp
    with occ have np: "\<not> prefix old (c # t)"
      by fastforce
    from suf lt have suf': "suffix old t"
      by (metis False suffix_Cons)
    have "\<not> prefix old (drop n t)" if "n < length t - length old" for n
      using occ [rule_format, of "Suc n"] that lt by simp
    with suf' have "ends_with_only old t"
      by (simp add: ends_with_only_def list_all_iff)
    from Cons.IH [OF this] np assms(1) lt show ?thesis
      by (simp add: Suc_diff_le)
  qed
qed

lemma report_file_path:
  "os_path_join ''/data'' [''derivatives'', ''fmriflows'', ''sub-'' @ rest]
   = ''/data/derivatives/fmriflows/sub-'' @ rest"
  by (simp add: suffix_to_prefix)

lemma fill_template_filename:
  "snd (fill_template txt sub sess)
   = (if sess \<noteq> '''' then ''sub-'' @ sub @ ''_ses-'' @ sess @ ''.html'' else ''sub-'' @ sub @ ''.html'')"
  by (simp add: fill_template_def Let_def)

lemma write_report_Inr:
  assumes "write_report sub sess n4_file segments brain T1_template warped_file fs = Inr (outs, fs')"
  shows "\<exists>fs3 template.
           outs = (str_replace brain ''brain.nii.gz'' ''segmentation.svg'',
                   str_replace brain ''.nii.gz'' ''.svg'',
                   str_replace warped_file ''.nii.gz'' ''.svg'')
         \<and> read_text fs3 ''/templates/report_template.html'' = Inr template
         \<and> fs' = fs3(''/data/derivatives/fmriflows/'' @ snd (fill_template template sub sess)
                      \<mapsto> TextFile (fst (fill_template template sub sess)))"
proof -
  from assms obtain fs3 template where
    r: "read_text fs3 ''/templates/report_template.html'' = Inr template" and
    e: "(case fill_template template sub sess of (txt, filename) \<Rightarrow>
          let report_file = os_path_join ''/data'' [''derivatives'', ''fmriflows'', filename]
          in Inr ((str_replace brain ''brain.nii.gz'' ''segmentation.svg'',
                   str_replace brain ''.nii.gz'' ''.svg'',
                   str_replace warped_file ''.nii.gz'' ''.svg''),
                  fs3(report_file \<mapsto> TextFile txt))) = (Inr (outs, fs') :: error + _)"
    unfolding write_report_def bindE_Inr_iff Let_def by blast
  obtain body filename where ft: "fill_template template sub sess = (body, filename)"
    by (cases "fill_template template sub sess")
  have fn: "filename = ''sub-'' @ drop 4 filename"
    using fill_template_filename [of template sub sess] ft by (simp split: if_splits)
  have p: "os_path_join ''/data'' [''derivatives'', ''fmriflows'', filename]
        = ''/data/derivatives/fmriflows/'' @ filename"
    by (subst fn, subst report_file_path, subst (2) fn) simp
  from e ft have "outs = (str_replace brain ''brain.nii.gz'' ''segmentation.svg'',
                   str_replace brain ''.nii.gz'' ''.svg'',
                   str_replace warped_file ''.nii.gz'' ''.svg'')
      \<and> fs' = fs3(os_path_join ''/data'' [''derivatives'', ''fmriflows'', filename] \<mapsto> TextFile body)"
    by (simp add: Let_def del: os_path_join.simps)
  with r ft show ?thesis
    unfolding p by (intro exI [of _ fs3] exI [of _ template]) simp
qed

subsection \<open>The brain mask\<close>

lemma unpack5_Inr:
  "unpack5 xs = Inr (a, b, c, d, e) \<longleftrightarrow> xs = [a, b, c, d, e]"
  by (cases xs rule: unpack5.cases) auto

lemma math_img2_Inr:
  "math_img2 f a b = Inr r \<longleftrightarrow>
     same_fov a b \<and> r = new_img_like b (f (get_data a) (get_data b))"
  by (auto simp: math_img2_def)

lemma math_img3_Inr:
  "math_img3 f a b c = Inr r \<longleftrightarrow>
     same_fov a b \<and> same_fov a c \<and> r = new_img_like c (f (get_data a) (get_data b) (get_data c))"
  by (auto simp: math_img3_def)

lemma int8_of_bool_combine:
  "(1 \<le> real_of_int (sint (of_bool a + of_bool b - of_bool c :: int8)))
   = (1 \<le> (of_bool a + of_bool b - of_bool c :: int))"
  by (cases a; cases b; cases c) simp_all

lemma nonzero_mask_astype_int8: "nonzero_mask (astype_int8 bs) = bs"
  by (induction bs) (simp_all add: nonzero_mask_def astype_int8_def)

lemma formula_combine_bits:
  "formula_combine (astype_int8 p) (astype_int8 q) (astype_int8 r)
   = astype_int8 (map (\<lambda>(a, b, c). (of_bool a + of_bool b - of_bool c :: int) \<ge> 1) (zip p (zip q r)))"
proof -
  have "map (\<lambda>x. f_ge x 1)
          (map (\<lambda>w. Finite (real_of_int (sint w)))
             (map2 (-) (map2 (+) (map of_bool p) (map of_bool q)) (map of_bool r) :: int8 list))
        = map (\<lambda>(a, b, c). (of_bool a + of_bool b - of_bool c :: int) \<ge> 1) (zip p (zip q r))"
  proof (induction p arbitrary: q r)
    case Nil
    then show ?case by simp
  next
    case (Cons a p)
    show ?case
    proof (cases q)
      case Nil
      then show ?thesis by simp
    next
      case q: (Cons b q')
      show ?thesis
      proof (cases r)
        case Nil
        then show ?thesis by (simp add: q)
      next
        case r: (Cons c r')
        show ?thesis
          using Cons.IH [of q' r'] by (simp add: q r int8_of_bool_combine)
      qed
    qed
  qed
  then show ?thesis
    by (simp add: formula_combine_def astype_int8_def np_ge_def)
qed

lemma length_as_float: "length (as_float a) = size_of a"
  by (cases a) simp_all

lemma size_of_np_add: "size_of (np_add a b) = min (size_of a) (size_of b)"
  by (cases a; cases b) simp_all

lemma nb_load_size:
  assumes "nb_load fs path = Inr img"
  shows "size_of (get_data img) = (case shape img of (nx, ny, nz) \<Rightarrow> nx * ny * nz)"
  using assms by (auto simp: nb_load_def split: option.splits stored.splits prod.splits if_splits)

lemma length_tissue_predicate:
  "length (tissue_predicate gm wm csf skull head)
   = min (min (size_of gm) (size_of wm)) (min (size_of csf) (min (size_of head) (size_of skull)))"
  by (simp add: tissue_predicate_def np_ge_def length_as_float size_of_np_add)

lemma get_brain_and_mask_Inr:
  assumes "get_brain_and_mask scipy array_writer fs in_file segments = Inr ((out_file, mask_file), fs')"
  shows "\<exists>img gm wm csf skull head gm_img wm_img csf_img skull_img head_img bits.
           nb_load fs in_file = Inr img
         \<and> mapE first segments = Inr [gm, wm, csf, skull, head]
         \<and> nb_load fs gm = Inr gm_img \<and> nb_load fs wm = Inr wm_img
         \<and> nb_load fs csf = Inr csf_img \<and> nb_load fs skull = Inr skull_img
         \<and> nb_load fs head = Inr head_img
         \<and> list_all (\<lambda>t. same_fov t gm_img \<and> shape t = shape img)
               [gm_img, wm_img, csf_img, skull_img, head_img]
         \<and> bits = refine_mask scipy (shape img)
                    (tissue_predicate (get_data gm_img) (get_data wm_img) (get_data csf_img)
                       (get_data skull_img) (get_data head_img))
         \<and> length (tissue_predicate (get_data gm_img) (get_data wm_img) (get_data csf_img)
                     (get_data skull_img) (get_data head_img)) = size_of (get_data img)
         \<and> out_file = str_replace in_file ''.nii'' ''_brain.nii''
         \<and> mask_file = str_replace in_file ''.nii'' ''_brainmask.nii''
         \<and> fs' = to_filename array_writer
                   \<lparr>affine = affine img, header = header img,
                      shape = shape img, get_data = astype_int8 bits\<rparr> mask_file
                  (to_filename array_writer
                     (new_img_like img (np_mul (get_data img) (astype_int8 bits))) out_file fs)"
proof -
  from assms obtain img gm wm csf skull head gm_img wm_img csf_img skull_img head_img
      img_gmwm img_csf img_not_rest img_mask img_brain where
    img: "nb_load fs in_file = Inr img" and
    firsts: "mapE first segments = Inr [gm, wm, csf, skull, head]" and
    loads: "nb_load fs gm = Inr gm_img" "nb_load fs wm = Inr wm_img" "nb_load fs csf = Inr csf_img"
      "nb_load fs skull = Inr skull_img" "nb_load fs head = Inr head_img" and
    gmwm: "math_img2 formula_sum_ge gm_img wm_img = Inr img_gmwm" and
    csf: "math_img1 formula_ge_one csf_img = Inr img_csf" and
    not_rest: "math_img2 formula_sum_ge head_img skull_img = Inr img_not_rest" and
    mask0: "math_img3 formula_combine img_gmwm img_csf img_not_rest = Inr img_mask" and
    brain: "math_img2 formula_product img
              \<lparr>affine = affine img, header = header img, shape = shape img_mask,
                 get_data = astype_int8 (refine_mask scipy (shape img_mask)
                              (nonzero_mask (get_data img_mask)))\<rparr> = Inr img_brain" and
    res: "out_file = str_replace in_file ''.nii'' ''_brain.nii''"
         "mask_file = str_replace in_file ''.nii'' ''_brainmask.nii''"
         "fs' = to_filename array_writer \<lparr>affine = affine img, header = header img, shape = shape img_mask,
                 get_data = astype_int8 (refine_mask scipy (shape img_mask)
                              (nonzero_mask (get_data img_mask)))\<rparr> mask_file
                  (to_filename array_writer img_brain out_file fs)"
    by (auto simp: get_brain_and_mask_def bindE_Inr_iff Let_def refine_mask_def unpack5_Inr
             split: prod.splits)
  have d1: "get_data img_gmwm = astype_int8 (np_ge (np_add (get_data gm_img) (get_data wm_img)) (25 / 100))"
    and f1: "same_fov gm_img wm_img" and s1: "shape img_gmwm = shape wm_img" "affine img_gmwm = affine wm_img"
    using gmwm by (auto simp: math_img2_Inr formula_sum_ge_def new_img_like_def)
  have d2: "get_data img_csf = astype_int8 (np_ge (get_data csf_img) 1)"
    and s2: "shape img_csf = shape csf_img" "affine img_csf = affine csf_img"
    using csf by (auto simp: math_img1_def new_img_like_def formula_ge_one_def)
  have d3: "get_data img_not_rest = astype_int8 (np_ge (np_add (get_data head_img) (get_data skull_img)) (25 / 100))"
    and f3: "same_fov head_img skull_img"
    and s3: "shape img_not_rest = shape skull_img" "affine img_not_rest = affine skull_img"
    using not_rest by (auto simp: math_img2_Inr formula_sum_ge_def new_img_like_def)
  have d4: "get_data img_mask = formula_combine (get_data img_gmwm) (get_data img_csf) (get_data img_not_rest)"
    and f4: "same_fov img_gmwm img_csf" "same_fov img_gmwm img_not_rest"
    and s4: "shape img_mask = shape img_not_rest"
    using mask0 by (auto simp: math_img3_Inr new_img_like_def)
  have pre: "nonzero_mask (get_data img_mask)
             = tissue_predicate (get_data gm_img) (get_data wm_img) (get_data csf_img)
                 (get_data skull_img) (get_data head_img)"
    unfolding d4 d1 d2 d3 formula_combine_bits nonzero_mask_astype_int8 tissue_predicate_def ..
  have f5: "shape img = shape img_mask"
    and d5: "img_brain = new_img_like img
               (np_mul (get_data img) (astype_int8 (refine_mask scipy (shape img_mask)
                              (nonzero_mask (get_data img_mask)))))"
    using brain by (auto simp: math_img2_Inr same_fov_def formula_product_def new_img_like_def)
  have fov: "list_all (\<lambda>t. same_fov t gm_img \<and> shape t = shape img)
               [gm_img, wm_img, csf_img, skull_img, head_img]"
    using f1 f3 f4 f5 s1 s2 s3 s4 by (simp add: same_fov_def)
  have "size_of (get_data t) = size_of (get_data img)"
    if "nb_load fs p = Inr t" and "shape t = shape img" for p t
    using nb_load_size [OF that(1)] nb_load_size [OF img] that(2) by simp
  with loads fov have len: "length (tissue_predicate (get_data gm_img) (get_data wm_img)
      (get_data csf_img) (get_data skull_img) (get_data head_img)) = size_of (get_data img)"
    by (simp add: length_tissue_predicate)
  show ?thesis
    using img firsts loads fov res len
    unfolding d5 pre f5 [symmetric]
    by blast
qed

lemma as_float_masked:
  "as_float (np_mul a (astype_int8 bits))
   = map2 (\<lambda>v b. if b then v else if is_finite v then Finite 0 else NaN) (as_float a) bits"
proof (cases a)
  case (Float64 xs)
  have one: "f_mul v (Finite 1) = v" for v
    by (cases v) simp_all
  have zero: "f_mul v (Finite 0) = (if is_finite v then Finite 0 else NaN)" for v
    by (cases v) simp_all
  have "map2 f_mul xs (map (\<lambda>w. Finite (real_of_int (sint w))) (map of_bool bits :: int8 list))
        = map2 (\<lambda>v b. if b then v else if is_finite v then Finite 0 else NaN) xs bits"
    by (induction xs bits rule: list_induct2') (simp_all add: one zero)
  then show ?thesis
    by (simp add: Float64 astype_int8_def)
next
  case (Int8 ws)
  have "map (\<lambda>w. Finite (real_of_int (sint w))) (map2 (*) ws (map of_bool bits))
        = map2 (\<lambda>v b. if b then v else if is_finite v then Finite 0 else NaN)
            (map (\<lambda>w. Finite (real_of_int (sint w))) ws) bits"
    by (induction ws bits rule: list_induct2') simp_all
  then show ?thesis
    by (simp add: Int8 astype_int8_def)
qed

lemma length_refine_mask:
  "keeps_shape scipy \<Longrightarrow> length (refine_mask scipy shp bits) = length bits"
  by (simp only: keeps_shape_def refine_mask_def)

text \<open>
  C2. The brain mask that \<open>get_brain_and_mask\<close> writes is computed from the five tissue
  probability maps alone: it is the voxelwise predicate
  \<open>((GM + WM >= 0.25) + (CSF >= 1.0) - (head + skull >= 0.25)) >= 1.0\<close>, refined by two
  iterations of binary dilation, then hole filling, then one iteration of binary erosion;
  and the extracted brain is the voxelwise product of the input T1 image and this mask.
  Both files are written, the brain first, each in the datatype of its header: the mask
  has the header of the T1 image, the brain a new header for its element type.
\<close>

theorem brain_mask_from_tissue_maps:
  assumes "get_brain_and_mask scipy array_writer fs in_file segments
           = Inr ((out_file, mask_file), fs')"
  shows "\<exists>img gm wm csf skull head gm_img wm_img csf_img skull_img head_img bits brain_img mask_img.
           nb_load fs in_file = Inr img
         \<and> mapE first segments = Inr [gm, wm, csf, skull, head]
         \<and> nb_load fs gm = Inr gm_img \<and> nb_load fs wm = Inr wm_img
         \<and> nb_load fs csf = Inr csf_img \<and> nb_load fs skull = Inr skull_img
         \<and> nb_load fs head = Inr head_img
         \<and> bits = binary_erosion scipy 1 (shape img)
                    (binary_fill_holes scipy (shape img)
                      (binary_dilation scipy 2 (shape img)
                        (tissue_predicate (get_data gm_img) (get_data wm_img) (get_data csf_img)
                           (get_data skull_img) (get_data head_img))))
         \<and> get_data mask_img = astype_int8 bits
         \<and> get_data brain_img = np_mul (get_data img) (get_data mask_img)
         \<and> header mask_img = header img
         \<and> header brain_img = default_header (dtype_of (get_data brain_img))
         \<and> fs' = to_filename array_writer mask_img mask_file
                  (to_filename array_writer brain_img out_file fs)"
proof -
  from get_brain_and_mask_Inr [OF assms]
  obtain img gm wm csf skull head gm_img wm_img csf_img skull_img head_img bits where
    loads: "nb_load fs in_file = Inr img" "mapE first segments = Inr [gm, wm, csf, skull, head]"
      "nb_load fs gm = Inr gm_img" "nb_load fs wm = Inr wm_img" "nb_load fs csf = Inr csf_img"
      "nb_load fs skull = Inr skull_img" "nb_load fs head = Inr head_img" and
    bits: "bits = refine_mask scipy (shape img)
                    (tissue_predicate (get_data gm_img) (get_data wm_img) (get_data csf_img)
                       (get_data skull_img) (get_data head_img))" and
    fs': "fs' = to_filename array_writer
                  \<lparr>affine = affine img, header = header img,
                     shape = shape img, get_data = astype_int8 bits\<rparr> mask_file
                  (to_filename array_writer
                     (new_img_like img (np_mul (get_data img) (astype_int8 bits))) out_file fs)"
    by blast
  let ?brain = "new_img_like img (np_mul (get_data img) (astype_int8 bits))"
  let ?mask = "\<lparr>affine = affine img, header = header img,
                 shape = shape img, get_data = astype_int8 bits\<rparr>"
  show ?thesis
    by (rule exI [of _ img], rule exI [of _ gm], rule exI [of _ wm], rule exI [of _ csf],
        rule exI [of _ skull], rule exI [of _ head], rule exI [of _ gm_img],
        rule exI [of _ wm_img], rule exI [of _ csf_img], rule exI [of _ skull_img],
        rule exI [of _ head_img], rule exI [of _ bits], rule exI [of _ ?brain],
        rule exI [of _ ?mask])
       (use bits [unfolded refine_mask_def] in \<open>simp add: loads fs' new_img_like_def\<close>)
qed

text \<open>
  C8, amended. Whenever \<open>get_brain_and_mask\<close> returns, with binary morphology that keeps
  the shape of its input, the mask it built has element type \<open>int8\<close>, one voxel for each
  voxel of the input T1 image, every voxel 0 or 1, and carries the affine, the header and
  the shape of the T1 image. The extracted brain equals the input at every voxel where
  the mask is 1; where the mask is 0 it is 0 if the input voxel is finite, and NaN if the
  input voxel is an infinity or NaN. The brain has a new header for its element type.
  The brain is written first, the mask after it, and the file of the mask holds the
  voxels as \<open>int8\<close> if that is the datatype of the header of the T1 image, and as the
  array writer converts them to the datatype of that header otherwise. The two output
  paths are the input path with \<open>.nii\<close> replaced by \<open>_brain.nii\<close> and by
  \<open>_brainmask.nii\<close>.
\<close>

theorem brain_mask_is_binary:
  assumes "get_brain_and_mask scipy array_writer fs in_file segments
           = Inr ((out_file, mask_file), fs')"
    and "keeps_shape scipy"
  shows "\<exists>img brain_img mask_img ms.
           nb_load fs in_file = Inr img
         \<and> out_file = str_replace in_file ''.nii'' ''_brain.nii''
         \<and> mask_file = str_replace in_file ''.nii'' ''_brainmask.nii''
         \<and> fs' = to_filename array_writer mask_img mask_file
                  (to_filename array_writer brain_img out_file fs)
         \<and> get_data mask_img = Int8 ms \<and> length ms = size_of (get_data img)
         \<and> list_all (\<lambda>w. w = 0 \<or> w = 1) ms
         \<and> affine mask_img = affine img \<and> header mask_img = header img
         \<and> shape mask_img = shape img
         \<and> affine brain_img = affine img \<and> shape brain_img = shape img
         \<and> header brain_img = default_header (dtype_of (get_data brain_img))
         \<and> as_float (get_data brain_img)
             = map2 (\<lambda>v w. if w = 1 then v else if is_finite v then Finite 0 else NaN)
                 (as_float (get_data img)) ms
         \<and> fs' mask_file
             = Some (NiftiFile (mask_img\<lparr>get_data :=
                 if data_dtype (header img) = DInt8 then Int8 ms
                 else array_writer (data_dtype (header img)) (Int8 ms)\<rparr>))"
proof -
  from get_brain_and_mask_Inr [OF assms(1)]
  obtain img gm wm csf skull head gm_img wm_img csf_img skull_img head_img bits where
    img: "nb_load fs in_file = Inr img" and
    "mapE first segments = Inr [gm, wm, csf, skull, head]" and
    "nb_load fs gm = Inr gm_img" and "nb_load fs wm = Inr wm_img" and
    "nb_load fs csf = Inr csf_img" and "nb_load fs skull = Inr skull_img" and
    "nb_load fs head = Inr head_img" and
    "list_all (\<lambda>t. same_fov t gm_img \<and> shape t = shape img)
               [gm_img, wm_img, csf_img, skull_img, head_img]" and
    bits: "bits = refine_mask scipy (shape img)
                    (tissue_predicate (get_data gm_img) (get_data wm_img) (get_data csf_img)
                       (get_data skull_img) (get_data head_img))" and
    len: "length (tissue_predicate (get_data gm_img) (get_data wm_img) (get_data csf_img)
                     (get_data skull_img) (get_data head_img)) = size_of (get_data img)" and
    paths: "out_file = str_replace in_file ''.nii'' ''_brain.nii''"
           "mask_file = str_replace in_file ''.nii'' ''_brainmask.nii''" and
    fs': "fs' = to_filename array_writer
                  \<lparr>affine = affine img, header = header img,
                     shape = shape img, get_data = astype_int8 bits\<rparr> mask_file
                  (to_filename array_writer
                     (new_img_like img (np_mul (get_data img) (astype_int8 bits))) out_file fs)"
    by (elim exE conjE)
  let ?ms = "map of_bool bits :: int8 list"
  let ?brain = "new_img_like img (np_mul (get_data img) (astype_int8 bits))"
  let ?mask = "\<lparr>affine = affine img, header = header img,
                 shape = shape img, get_data = Int8 ?ms\<rparr>"
  have fs'': "fs' = to_filename array_writer ?mask mask_file
                     (to_filename array_writer ?brain out_file fs)"
    using fs' by (simp add: astype_int8_def)
  have length: "length ?ms = size_of (get_data img)"
    using length_refine_mask [OF assms(2)] bits len by simp
  have binary: "list_all (\<lambda>w. w = 0 \<or> w = 1) ?ms"
    by (induction bits) simp_all
  have "map2 (\<lambda>v b. if b then v else if is_finite v then Finite 0 else NaN) xs bits
        = map2 (\<lambda>v w. if w = 1 then v else if is_finite v then Finite 0 else NaN) xs ?ms"
    for xs :: "float64 list"
    by (induction xs bits rule: list_induct2') simp_all
  then have voxels: "as_float (get_data ?brain)
        = map2 (\<lambda>v w. if w = 1 then v else if is_finite v then Finite 0 else NaN)
            (as_float (get_data img)) ?ms"
    by (simp add: as_float_masked new_img_like_def)
  have written: "fs' mask_file
        = Some (NiftiFile (?mask\<lparr>get_data :=
            if data_dtype (header img) = DInt8 then Int8 ?ms
            else array_writer (data_dtype (header img)) (Int8 ?ms)\<rparr>))"
    unfolding fs'' by (auto simp: to_filename_def)
  have rest: "get_data ?mask = Int8 ?ms" "affine ?mask = affine img" "header ?mask = header img"
    "shape ?mask = shape img" "affine ?brain = affine img" "shape ?brain = shape img"
    "header ?brain = default_header (dtype_of (get_data ?brain))"
    by (simp_all add: new_img_like_def)
  show ?thesis
    apply (rule exI [of _ img], rule exI [of _ ?brain], rule exI [of _ ?mask],
        rule exI [of _ ?ms])
    apply (intro conjI)
    apply (rule img paths fs'' length binary voxels written rest)+
    done
qed

text \<open>
  \<open>get_brain_and_mask\<close> returns whenever the T1 image and the first file of each of five
  tissue classes load, the tissue maps share shape and affine, and their shape is that
  of the T1 image.
\<close>

lemma get_brain_and_mask_returns:
  assumes "nb_load fs in_file = Inr img"
    and "mapE first segments = Inr [gm, wm, csf, skull, head]"
    and "nb_load fs gm = Inr gm_img" and "nb_load fs wm = Inr wm_img"
    and "nb_load fs csf = Inr csf_img" and "nb_load fs skull = Inr skull_img"
    and "nb_load fs head = Inr head_img"
    and "list_all (\<lambda>t. same_fov t gm_img \<and> shape t = shape img)
           [gm_img, wm_img, csf_img, skull_img, head_img]"
  shows "\<exists>fs'. get_brain_and_mask scipy array_writer fs in_file segments
           = Inr ((str_replace in_file ''.nii'' ''_brain.nii'',
                   str_replace in_file ''.nii'' ''_brainmask.nii''), fs')"
  using assms
  by (simp add: get_brain_and_mask_def math_img1_def math_img2_def math_img3_def
        new_img_like_def same_fov_def Let_def)

text \<open>
  \<open>write_report\<close> returns whenever the brain image, five tissue maps of its shape and the
  warped image load, the brain and the warped image have a non-zero voxel, the report
  template is a text file, and no figure is saved over a file that is read afterwards.
\<close>

lemma get_cut_ids_returns:
  assumes "axis < 3" and "\<not> list_all (\<lambda>x. x = Finite 0) (as_float (get_data img))"
  shows "\<exists>cuts. get_cut_ids img axis = Inr cuts"
proof -
  from assms(2) have nz: "nonzero img \<noteq> []"
    by (simp add: nonzero_empty_iff)
  from nonzero_axis_Inr [OF assms(1), of img] obtain coords where
    c: "nonzero_axis img axis = Inr coords" "length coords = length (nonzero img)"
    by blast
  with nz have "coords \<noteq> []"
    by auto
  from get_cut_ids_nonempty [OF assms(1) c(1) this] show ?thesis
    by blast
qed

lemma write_report_returns:
  assumes brain: "nb_load fs brain = Inr img"
      "\<not> list_all (\<lambda>x. x = Finite 0) (as_float (get_data img))"
    and segs: "mapE (\<lambda>i. bindE (item segments i) (\<lambda>s. bindE (first s) (nb_load fs)))
                 [0, 1, 2, 3, 4] = Inr tissue"
      "list_all (\<lambda>s. shape s = shape img) tissue"
    and warped: "nb_load fs warped_file = Inr w"
      "\<not> list_all (\<lambda>x. x = Finite 0) (as_float (get_data w))"
    and template: "fs ''/templates/report_template.html'' = Some (TextFile html)"
    and fresh: "str_replace brain ''brain.nii.gz'' ''segmentation.svg''
                  \<notin> {brain, warped_file, ''/templates/report_template.html''}"
      "str_replace brain ''.nii.gz'' ''.svg''
                  \<notin> {brain, warped_file, ''/templates/report_template.html''}"
      "str_replace warped_file ''.nii.gz'' ''.svg'' \<noteq> ''/templates/report_template.html''"
  shows "\<exists>r. write_report sub sess n4_file segments brain T1_template warped_file fs = Inr r"
proof -
  obtain c0 c1 c2 where c: "get_cut_ids img 0 = Inr c0" "get_cut_ids img (Suc 0) = Inr c1"
      "get_cut_ids img (Suc (Suc 0)) = Inr c2"
    using get_cut_ids_returns [OF _ brain(2), of 0] get_cut_ids_returns [OF _ brain(2), of 1]
      get_cut_ids_returns [OF _ brain(2), of 2] by (auto simp: numeral_2_eq_2)
  obtain d0 d1 d2 where d: "get_cut_ids w 0 = Inr d0" "get_cut_ids w (Suc 0) = Inr d1"
      "get_cut_ids w (Suc (Suc 0)) = Inr d2"
    using get_cut_ids_returns [OF _ warped(2), of 0] get_cut_ids_returns [OF _ warped(2), of 1]
      get_cut_ids_returns [OF _ warped(2), of 2] by (auto simp: numeral_2_eq_2)
  have l: "nb_load (fs(p \<mapsto> SvgFile fig)) q = nb_load fs q" if "p \<noteq> q" for p q fig
    using that by (simp add: nb_load_def)
  have l2: "nb_load (fs(p \<mapsto> SvgFile fig, p' \<mapsto> SvgFile fig')) q = nb_load fs q"
    if "p \<noteq> q" "p' \<noteq> q" for p p' q fig fig'
    using that by (simp add: nb_load_def)
  have a: "axes = [(0, ''x''), (Suc 0, ''y''), (Suc (Suc 0), ''z'')]"
    by (simp add: axes_def)
  have f: "str_replace brain ''brain.nii.gz'' ''segmentation.svg'' \<noteq> brain"
    "str_replace brain ''brain.nii.gz'' ''segmentation.svg'' \<noteq> warped_file"
    "''/templates/report_template.html'' \<noteq> str_replace brain ''brain.nii.gz'' ''segmentation.svg''"
    "str_replace brain ''.nii.gz'' ''.svg'' \<noteq> brain"
    "str_replace brain ''.nii.gz'' ''.svg'' \<noteq> warped_file"
    "''/templates/report_template.html'' \<noteq> str_replace brain ''.nii.gz'' ''.svg''"
    "''/templates/report_template.html'' \<noteq> str_replace warped_file ''.nii.gz'' ''.svg''"
    using fresh by auto
  show ?thesis
    unfolding write_report_def brain(1) segs(1) bindE_simps label_id_def a
    using segs(2)
    by (simp add: f c d l l2 brain(1) warped(1) savefig_def read_text_def template Let_def
          split: prod.splits del: os_path_join.simps)
qed


text \<open>
  C5. Whenever \<open>write_report\<close> returns, it has written the HTML report to
  \<open>/data/derivatives/fmriflows/sub-{sub}_ses-{sess}.html\<close> when \<open>sess\<close> is non-empty and to
  \<open>/data/derivatives/fmriflows/sub-{sub}.html\<close> when it is empty, and it returns three
  paths: the brain path with \<open>brain.nii.gz\<close> replaced by \<open>segmentation.svg\<close>, the brain
  path with \<open>.nii.gz\<close> replaced by \<open>.svg\<close>, and the path of the warped image with
  \<open>.nii.gz\<close> replaced by \<open>.svg\<close>. The replacement is Python's \<open>str.replace\<close>; on a
  path that ends with the replaced text and holds it nowhere else, it exchanges the
  suffix.
\<close>

theorem write_report_outputs:
  assumes "write_report sub sess n4_file segments brain T1_template warped_file fs = Inr (outs, fs')"
  shows "outs = (str_replace brain ''brain.nii.gz'' ''segmentation.svg'',
                 str_replace brain ''.nii.gz'' ''.svg'',
                 str_replace warped_file ''.nii.gz'' ''.svg'')
       \<and> (\<exists>html. fs' (if sess \<noteq> ''''
                       then ''/data/derivatives/fmriflows/sub-'' @ sub @ ''_ses-'' @ sess @ ''.html''
                       else ''/data/derivatives/fmriflows/sub-'' @ sub @ ''.html'')
                  = Some (TextFile html))
       \<and> (ends_with_only ''brain.nii.gz'' brain \<longrightarrow>
             fst outs = take (length brain - 12) brain @ ''segmentation.svg'')
       \<and> (ends_with_only ''.nii.gz'' brain \<longrightarrow>
             fst (snd outs) = take (length brain - 7) brain @ ''.svg'')
       \<and> (ends_with_only ''.nii.gz'' warped_file \<longrightarrow>
             snd (snd outs) = take (length warped_file - 7) warped_file @ ''.svg'')"
proof -
  from write_report_Inr [OF assms] obtain fs3 template where
    outs: "outs = (str_replace brain ''brain.nii.gz'' ''segmentation.svg'',
                   str_replace brain ''.nii.gz'' ''.svg'',
                   str_replace warped_file ''.nii.gz'' ''.svg'')" and
    fs': "fs' = fs3(''/data/derivatives/fmriflows/'' @ snd (fill_template template sub sess)
                      \<mapsto> TextFile (fst (fill_template template sub sess)))"
    by blast
  have report: "\<exists>html. fs' (if sess \<noteq> ''''
                       then ''/data/derivatives/fmriflows/sub-'' @ sub @ ''_ses-'' @ sess @ ''.html''
                       else ''/data/derivatives/fmriflows/sub-'' @ sub @ ''.html'')
                  = Some (TextFile html)"
    unfolding fs' fill_template_filename by simp
  have seg: "str_replace brain ''brain.nii.gz'' ''segmentation.svg''
             = take (length brain - 12) brain @ ''segmentation.svg''"
    if "ends_with_only ''brain.nii.gz'' brain"
  proof -
    have l: "length ''brain.nii.gz'' = 12" and n: "''brain.nii.gz'' \<noteq> []"
      by simp_all
    show ?thesis
      using str_replace_suffix [OF n that, of "''segmentation.svg''"] unfolding l .
  qed
  have svg: "str_replace p ''.nii.gz'' ''.svg'' = take (length p - 7) p @ ''.svg''"
    if "ends_with_only ''.nii.gz'' p" for p
  proof -
    have l: "length ''.nii.gz'' = 7" and n: "''.nii.gz'' \<noteq> []"
      by simp_all
    show ?thesis
      using str_replace_suffix [OF n that, of "''.svg''"] unfolding l .
  qed
  from report seg svg show ?thesis
    unfolding outs fst_conv snd_conv by blast
qed

subsection \<open>Datasets without sessions\<close>

lemma incoming_create_report:
  "incoming ds create_report
     = [(infosource ds, ''subject_id'', ''sub''), (infosource ds, ''session_id'', ''sess''),
        (n4, ''output_image'', ''n4''), (segment, ''native_class_images'', ''segments''),
        (extract_brain, ''out_file'', ''brain''), (antsreg ds, ''warped_image'', ''warped_file'')]"
  unfolding incoming_def connect_def by (simp add: node_names)

text \<open>
  C10. When the layout reports no sessions, \<open>session_list\<close> is the one-element list
  holding the empty string, so the iterables of \<open>infosource\<close> still give one combination
  per subject. The empty session identifier reaches \<open>create_file_path\<close> and
  \<open>write_report\<close> through the connections of \<open>infosource\<close> and selects their branches
  without session components: for identifiers of the subject and the T1 image that hold
  no opening brace, the path of the anatomical file has no session directory and no
  session label, and the report is written to the file named after the subject alone.
\<close>

theorem no_sessions_one_run_per_subject:
  assumes "get_sessions ds = []"
  shows "session_list (get_sessions ds) = ['''']
       \<and> combinations (iterables (infosource ds))
           = map (\<lambda>sub. [(''subject_id'', sub), (''session_id'', '''')]) (subject_list ds)
       \<and> length (combinations (iterables (infosource ds))) = length (subject_list ds)
       \<and> (infosource ds, ''session_id'', ''session_id'') \<in> set (incoming ds (selectfiles ds))
       \<and> (infosource ds, ''session_id'', ''sess'') \<in> set (incoming ds create_report)
       \<and> (\<forall>sub T1. CHR ''{'' \<notin> set sub \<and> CHR ''{'' \<notin> set T1 \<longrightarrow>
             create_file_path re_match sub '''' T1
             = Inr (''/data/sub-'' @ sub @ ''/anat/sub-'' @ sub @ ''_'' @ T1 @ ''.nii.gz''))
       \<and> (\<forall>sub n4_file segments brain T1_template warped_file fs outs fs'.
             write_report sub '''' n4_file segments brain T1_template warped_file fs = Inr (outs, fs')
             \<longrightarrow> (\<exists>html. fs' (''/data/derivatives/fmriflows/sub-'' @ sub @ ''.html'')
                          = Some (TextFile html)))"
proof -
  have s: "session_list (get_sessions ds) = ['''']"
    using assms by (simp add: session_list_def)
  have c: "combinations (iterables (infosource ds))
           = map (\<lambda>sub. [(''subject_id'', sub), (''session_id'', '''')]) (subject_list ds)"
    unfolding combinations_infosource s by (induction "subject_list ds") simp_all
  have w: "\<exists>html. fs' (''/data/derivatives/fmriflows/sub-'' @ sub @ ''.html'') = Some (TextFile html)"
    if "write_report sub '''' n4_file segments brain T1_template warped_file fs = Inr (outs, fs')"
    for sub n4_file segments brain T1_template warped_file fs outs fs'
    using write_report_Inr [OF that] by (auto simp: fill_template_filename)
  show ?thesis
    using w by (simp add: s c incoming_eq incoming_create_report create_file_path_no_session)
qed

subsection \<open>File naming and the origin of the code\<close>





subsection \<open>Evaluation on the small dataset\<close>

theorem six_steps_in_dependency_order_witness:
  "[(''subject_id'', ''01''), (''session_id'', '''')]
     \<in> set (combinations (iterables (infosource example_dataset)))
   \<and> node_out example_dataset [(''subject_id'', ''01''), (''session_id'', '''')] 9
         (antsreg example_dataset) ''warped_image''
       = Some (normalized example_dataset [(''subject_id'', ''01''), (''session_id'', '''')])
   \<and> map_of (inputs (antsreg example_dataset)) ''fixed_image''
       = Some (PyStr ''/templates/mni_icbm152_nlin_asym_09c/template_brain_1_1_1.nii.gz'')
   \<and> respects_connections example_dataset example_order
   \<and> position example_order ''n4'' < position example_order ''segment''"
proof -
  have m: "[(''subject_id'', ''01''), (''session_id'', '''')]
             \<in> set (combinations (iterables (infosource example_dataset)))"
    by (simp add: combinations_infosource example_dataset_def session_list_def)
  have t: "norm_template example_dataset
           = ''/templates/mni_icbm152_nlin_asym_09c/template_brain_1_1_1.nii.gz''"
    by (simp add: norm_template_def template_dir_def example_dataset_def suffix_to_prefix)
  have r: "respects_connections example_dataset example_order"
    unfolding respects_connections_def dependencies_eq workflow_nodes_eq
    by (simp add: node_names example_order_def position_def) (simp add: insert_commute)
  from six_steps_in_dependency_order [of example_dataset 0] m t r show ?thesis
    by (simp del: node_out.simps)
qed

theorem workflow_is_dag_witness:
  "list_all (connection_ok example_dataset) (connect example_dataset)
   \<and> map name (workflow_nodes example_dataset)
       = [''selectfiles'', ''reorient'', ''cropFOV'', ''gunzip'', ''infosource'', ''n4'', ''segment'',
          ''extract_brain'', ''antsreg'', ''create_report'', ''datasink'']
   \<and> acyclic (set (dependencies example_dataset))"
  using workflow_is_dag [of example_dataset]
  by (simp add: workflow_nodes_eq node_names)

theorem no_sessions_one_run_per_subject_witness:
  "get_sessions example_dataset = []
   \<and> combinations (iterables (infosource example_dataset))
       = [[(''subject_id'', ''01''), (''session_id'', '''')],
          [(''subject_id'', ''02''), (''session_id'', '''')]]
   \<and> create_file_path no_re_match ''01'' '''' ''T1w''
       = Inr ''/data/sub-01/anat/sub-01_T1w.nii.gz''"
proof -
  have g: "get_sessions example_dataset = []"
    by (simp add: example_dataset_def)
  have l: "subject_list example_dataset = [''01'', ''02'']"
    by (simp add: example_dataset_def)
  from no_sessions_one_run_per_subject [OF g] g show ?thesis
    by (simp add: l)
qed


lemma example_get_brain_and_mask:
  "\<exists>fs'. get_brain_and_mask no_morphology example_writer example_fs ''/w/T1.nii.gz''
           example_segments
           = Inr ((''/w/T1_brain.nii.gz'', ''/w/T1_brainmask.nii.gz''), fs')"
  by (simp add: get_brain_and_mask_def example_fs_def example_segments_def nb_load_def first_def
        example_image_def example_volume_def math_img1_def math_img2_def math_img3_def same_fov_def new_img_like_def
        Let_def)

lemma example_write_report:
  "\<exists>r. write_report ''01'' '''' ''/w/T1.nii.gz'' example_segments ''/w/T1_brain.nii.gz''
          ''/t/T1.nii.gz'' ''/w/warped.nii.gz'' example_fs = Inr r"
  by (simp add: write_report_def example_fs_def example_segments_def nb_load_def first_def item_def
      example_image_def example_volume_def example_affine_def label_id_def argmax_def get_cut_ids_def nonzero_axis_def nonzero_def
      nonzero_mask_def unravel_def np_min_def np_max_def np_linspace_def py_int_def
      coord_transform_def axes_def savefig_def read_text_def fill_template_def Let_def
      upt_rec [of _ "numeral n" for n] enumerate_eq_zip)

theorem brain_mask_from_tissue_maps_witness:
  "\<exists>fs'. get_brain_and_mask no_morphology example_writer example_fs ''/w/T1.nii.gz''
              example_segments
            = Inr ((''/w/T1_brain.nii.gz'', ''/w/T1_brainmask.nii.gz''), fs')
        \<and> (\<exists>m. fs' ''/w/T1_brainmask.nii.gz'' = Some (NiftiFile m)
               \<and> get_data m = Float64 [Finite 1, Finite 0])
        \<and> (\<exists>b. fs' ''/w/T1_brain.nii.gz'' = Some (NiftiFile b)
               \<and> get_data b = Float64 [Finite 100, Finite 0])"
proof -
  from example_get_brain_and_mask obtain fs' where
    e: "get_brain_and_mask no_morphology example_writer example_fs ''/w/T1.nii.gz''
          example_segments
          = Inr ((''/w/T1_brain.nii.gz'', ''/w/T1_brainmask.nii.gz''), fs')"
    by blast
  from brain_mask_from_tissue_maps [OF e]
  have "(\<exists>m. fs' ''/w/T1_brainmask.nii.gz'' = Some (NiftiFile m)
            \<and> get_data m = Float64 [Finite 1, Finite 0])
      \<and> (\<exists>b. fs' ''/w/T1_brain.nii.gz'' = Some (NiftiFile b)
            \<and> get_data b = Float64 [Finite 100, Finite 0])"
    by (auto simp: example_fs_def example_segments_def nb_load_def first_def example_image_def
          example_volume_def example_header_def example_writer_def to_filename_def
          no_morphology_def tissue_predicate_def np_ge_def astype_int8_def)
  with e show ?thesis
    by blast
qed

theorem brain_mask_is_binary_witness:
  "\<exists>fs' brain_img mask_img ms.
       get_brain_and_mask no_morphology example_writer example_fs ''/w/T1.nii.gz''
         example_segments
         = Inr ((''/w/T1_brain.nii.gz'', ''/w/T1_brainmask.nii.gz''), fs')
     \<and> keeps_shape no_morphology
     \<and> fs' = to_filename example_writer mask_img ''/w/T1_brainmask.nii.gz''
              (to_filename example_writer brain_img ''/w/T1_brain.nii.gz'' example_fs)
     \<and> get_data mask_img = Int8 ms \<and> length ms = 2 \<and> list_all (\<lambda>w. w = 0 \<or> w = 1) ms
     \<and> affine mask_img = example_affine \<and> header mask_img = example_header
     \<and> shape mask_img = (2, 1, 1) 
     \<and> header brain_img = default_header (dtype_of (get_data brain_img))
     \<and> as_float (get_data brain_img)
         = map2 (\<lambda>v w. if w = 1 then v else if is_finite v then Finite 0 else NaN)
             [Finite 100, Finite 50] ms
     \<and> fs' ''/w/T1_brainmask.nii.gz''
         = Some (NiftiFile (mask_img\<lparr>get_data := Float64 (as_float (Int8 ms))\<rparr>))"
proof -
  from example_get_brain_and_mask obtain fs' where
    e: "get_brain_and_mask no_morphology example_writer example_fs ''/w/T1.nii.gz''
          example_segments
          = Inr ((''/w/T1_brain.nii.gz'', ''/w/T1_brainmask.nii.gz''), fs')"
    by blast
  have k: "keeps_shape no_morphology"
    by (simp add: keeps_shape_def no_morphology_def)
  have l: "nb_load example_fs ''/w/T1.nii.gz'' = Inr (example_image [100, 50])"
    by (simp add: nb_load_def example_fs_def example_image_def example_volume_def)
  from brain_mask_is_binary [OF e k] obtain img brain_img mask_img ms where
    i: "nb_load example_fs ''/w/T1.nii.gz'' = Inr img" and
    "''/w/T1_brain.nii.gz'' = str_replace ''/w/T1.nii.gz'' ''.nii'' ''_brain.nii''" and
    "''/w/T1_brainmask.nii.gz'' = str_replace ''/w/T1.nii.gz'' ''.nii'' ''_brainmask.nii''" and
    f: "fs' = to_filename example_writer mask_img ''/w/T1_brainmask.nii.gz''
              (to_filename example_writer brain_img ''/w/T1_brain.nii.gz'' example_fs)" and
    m: "get_data mask_img = Int8 ms" "length ms = size_of (get_data img)"
       "list_all (\<lambda>w. w = 0 \<or> w = 1) ms" "affine mask_img = affine img"
       "header mask_img = header img" "shape mask_img = shape img" and
    b: "affine brain_img = affine img" "shape brain_img = shape img"
       "header brain_img = default_header (dtype_of (get_data brain_img))"
       "as_float (get_data brain_img)
        = map2 (\<lambda>v w. if w = 1 then v else if is_finite v then Finite 0 else NaN)
            (as_float (get_data img)) ms" and
    w: "fs' ''/w/T1_brainmask.nii.gz''
        = Some (NiftiFile (mask_img\<lparr>get_data :=
            if data_dtype (header img) = DInt8 then Int8 ms
            else example_writer (data_dtype (header img)) (Int8 ms)\<rparr>))"
    by (elim exE conjE)
  from i l have img: "img = example_image [100, 50]"
    by simp
  have m': "length ms = 2" "affine mask_img = example_affine"
    "header mask_img = example_header" "shape mask_img = (2, 1, 1)"
    using m(2,4,5,6) unfolding img by (simp_all add: example_image_def example_volume_def)
  have b': "as_float (get_data brain_img)
        = map2 (\<lambda>v w. if w = 1 then v else if is_finite v then Finite 0 else NaN)
            [Finite 100, Finite 50] ms"
    using b(4) unfolding img by (simp add: example_image_def example_volume_def)
  have w': "fs' ''/w/T1_brainmask.nii.gz''
        = Some (NiftiFile (mask_img\<lparr>get_data := Float64 (as_float (Int8 ms))\<rparr>))"
    using w unfolding img
    by (simp add: example_image_def example_volume_def example_header_def example_writer_def)
  show ?thesis
    apply (rule exI [of _ fs'], rule exI [of _ brain_img], rule exI [of _ mask_img],
        rule exI [of _ ms])
    apply (intro conjI)
    apply (rule e k f m(1) m(3) m' b(3) b' w')+
    done
qed

text \<open>
  On the second file system the T1 image is NaN in the voxel that the mask leaves out.
  The mask is 0 there, and the extracted brain is NaN, not 0.
\<close>

theorem brain_not_zero_outside_mask:
  "map_sum id (\<lambda>(paths, fs'). (paths, fs' ''/w/T1_brainmask.nii.gz'', fs' ''/w/T1_brain.nii.gz''))
     (get_brain_and_mask no_morphology example_writer example_fs_nan ''/w/T1.nii.gz''
        example_segments)
   = Inr ((''/w/T1_brain.nii.gz'', ''/w/T1_brainmask.nii.gz''),
          Some (NiftiFile \<lparr>affine = example_affine, header = example_header, shape = (2, 1, 1),
                            get_data = Float64 [Finite 1, Finite 0]\<rparr>),
          Some (NiftiFile \<lparr>affine = example_affine, header = default_header DFloat64,
                            shape = (2, 1, 1), get_data = Float64 [Finite 100, NaN]\<rparr>))
   \<and> NaN \<noteq> Finite 0"
  by (simp add: get_brain_and_mask_def example_fs_nan_def example_fs_def example_segments_def
        nb_load_def first_def example_image_def example_volume_def example_header_def
        example_writer_def to_filename_def no_morphology_def math_img1_def math_img2_def
        math_img3_def same_fov_def new_img_like_def default_header_def formula_sum_ge_def
        formula_ge_one_def formula_combine_def formula_product_def np_ge_def astype_int8_def
        nonzero_mask_def Let_def)

theorem write_report_outputs_witness:
  "\<exists>fs'. write_report ''01'' '''' ''/w/T1.nii.gz'' example_segments ''/w/T1_brain.nii.gz''
            ''/t/T1.nii.gz'' ''/w/warped.nii.gz'' example_fs
          = Inr ((''/w/T1_segmentation.svg'', ''/w/T1_brain.svg'', ''/w/warped.svg''), fs')
        \<and> (\<exists>html. fs' ''/data/derivatives/fmriflows/sub-01.html'' = Some (TextFile html))
        \<and> ends_with_only ''brain.nii.gz'' ''/w/T1_brain.nii.gz''
        \<and> ends_with_only ''.nii.gz'' ''/w/T1_brain.nii.gz''
        \<and> ends_with_only ''.nii.gz'' ''/w/warped.nii.gz''"
proof -
  from example_write_report obtain outs fs' where
    e: "write_report ''01'' '''' ''/w/T1.nii.gz'' example_segments ''/w/T1_brain.nii.gz''
          ''/t/T1.nii.gz'' ''/w/warped.nii.gz'' example_fs = Inr (outs, fs')"
    by auto
  have s: "ends_with_only ''brain.nii.gz'' ''/w/T1_brain.nii.gz''"
    "ends_with_only ''.nii.gz'' ''/w/T1_brain.nii.gz''"
    "ends_with_only ''.nii.gz'' ''/w/warped.nii.gz''"
    by (simp_all add: ends_with_only_def suffix_to_prefix upt_rec [of _ "numeral n" for n])
  from write_report_outputs [OF e] have
    "fst outs = ''/w/T1_segmentation.svg''" "fst (snd outs) = ''/w/T1_brain.svg''"
    "snd (snd outs) = ''/w/warped.svg''"
    "\<exists>html. fs' ''/data/derivatives/fmriflows/sub-01.html'' = Some (TextFile html)"
    using s by simp_all
  with e s show ?thesis
    by (cases outs) auto
qed

end
